theory Spec2Isabelle
  imports Main
begin

section \<open>The Vorbis decoder of lib/decoder.js as a state machine\<close>

text \<open>
  The decoder is an event-driven object: the Ogg stream calls \<open>packetin(packet, done)\<close> for
  every 'packet' event, the Readable base class calls \<open>_read(bytes, done)\<close>, and the native
  binding calls back with the status of \<open>vorbis_synthesis_headerin\<close>.  All three run to
  completion on one thread.  The model keeps the fields of the object, the two lists of
  \<open>once\<close> listeners the decoder registers on itself, and a trace of everything the decoder
  does that is visible to the binding, the stream or the consumer.

  What is outside lib/decoder.js is taken as follows.
  \<^item> The native binding is a parameter: a record of functions over an engine state \<open>'e\<close>
    (the contents of the \<open>vi\<close>, \<open>vc\<close>, \<open>vd\<close> and \<open>vb\<close> buffers), each returning its status.
    The values of \<open>comment_array\<close> and \<open>get_format\<close> are not modelled; the keys of the
    format object are not names of the decoder's own fields.
  \<^item> \<open>emit\<close> calls the listeners registered at that moment, in order of registration; a
    \<open>once\<close> listener unregisters itself when it is called and is called at most once.
    The calls that an \<open>emit\<close> makes are kept on a stack of pending calls, so that a
    listener that emits again is nested as in JavaScript.
  \<^item> The callbacks handed to the decoder (\<open>done\<close>, and the listeners of 'comments',
    'format' and 'error', of which there is at least one for 'error') are recorded in the
    trace; they do not call back into the decoder before they return.
  \<^item> The value returned by \<open>vorbis_synthesis_pcmout\<close> is a number or a Buffer.  A Buffer is
    never \<open>=== 0\<close>, and the model takes \<open>b < 0\<close> as false for it: this leaves out the
    Buffers whose bytes, read as text, spell a negative number, which JavaScript would
    coerce and send to the error branch.
  \<^item> The binding answers the outstanding calls of \<open>vorbis_synthesis_headerin\<close> in the
    order in which they were made.
\<close>

subsection \<open>Data\<close>

datatype packet = Packet (packetno: nat) (e_o_s: bool)

datatype pcm = Num int | Buf "nat list"

text \<open>The Error objects the decoder creates, by the call whose status they carry.\<close>

datatype error =
    Headerin_failed int
  | Init_failed int
  | Synthesis_failed int
  | Blockin_failed int
  | Pcmout_failed int

datatype exn = TypeError

text \<open>What \<open>_read\<close> hands to its \<open>done\<close>: \<open>done(null, null)\<close>, \<open>done(err)\<close> or \<open>done(null, b)\<close>.\<close>

datatype read_result = Eof | Failure error | Chunk pcm

text \<open>
  The trace.  \<open>Rx_packet\<close> and \<open>Rx_read\<close>: the stream's 'packet' event reached \<open>packetin\<close>,
  the consumer called \<open>_read\<close>.  \<open>Call_...\<close>: a call of the binding, with the value it
  returned (\<open>Call_headerin\<close> starts the asynchronous call, \<open>Ret_headerin\<close> is its answer).
  \<open>Emit_...\<close>: an event the decoder emits.  \<open>Remove_listener\<close>: the 'packet' listener is
  taken off the stream.  \<open>Done_packet p err\<close>: \<open>done(err)\<close> or \<open>done()\<close> of packet \<open>p\<close> is called;
  \<open>Next_tick p\<close>: \<open>process.nextTick(done)\<close>.  \<open>Done_read n res\<close>: \<open>done\<close> of the read of \<open>n\<close>
  bytes is called.  \<open>Uncaught\<close>: an exception leaves the decoder.
\<close>

datatype event =
    Rx_packet packet
  | Rx_read nat
  | Call_headerin packet
  | Ret_headerin packet int
  | Call_synthesis_init int
  | Call_block_init int
  | Call_synthesis packet int
  | Call_blockin int
  | Call_pcmout pcm
  | Emit_comments
  | Emit_format
  | Emit_error error
  | Emit_blockin
  | Emit_pcmout
  | Remove_listener
  | Done_packet packet "error option"
  | Next_tick packet
  | Done_read nat read_result
  | Uncaught exn

text \<open>
  A pending call: a \<open>once('pcmout')\<close> listener bound to \<open>packetin(packet, done)\<close>, a
  \<open>once('blockin')\<close> listener bound to \<open>_read(bytes, done)\<close>, each with the identity of the
  listener, or the \<open>process.nextTick(done)\<close> that follows \<open>emit('blockin')\<close> in \<open>packetin\<close>.
\<close>

datatype work = Fire_pcmout nat packet | Fire_blockin nat nat | Tick packet

record 'e binding =
  vorbis_synthesis_headerin :: "'e \<Rightarrow> packet \<Rightarrow> int \<times> 'e"
  vorbis_synthesis_init :: "'e \<Rightarrow> int \<times> 'e"
  vorbis_block_init :: "'e \<Rightarrow> int \<times> 'e"
  vorbis_synthesis :: "'e \<Rightarrow> packet \<Rightarrow> int \<times> 'e"
  vorbis_synthesis_blockin :: "'e \<Rightarrow> int \<times> 'e"
  vorbis_synthesis_pcmout :: "'e \<Rightarrow> pcm \<times> 'e"

text \<open>
  The decoder: \<open>stream_attached\<close> says that \<open>packetin\<close> is a listener of the stream's 'packet'
  event, \<open>stream_ref\<close> that \<open>this._stream\<close> is not null; \<open>headerCount\<close>, \<open>blockin\<close> and
  \<open>gotEos\<close> are \<open>_headerCount\<close>, \<open>_blockin\<close> and \<open>_gotEos\<close>.
\<close>

record 'e decoder =
  stream_attached :: bool
  stream_ref :: bool
  headerCount :: int
  blockin :: bool
  gotEos :: bool
  on_pcmout :: "(nat \<times> packet) list"
  on_blockin :: "(nat \<times> nat) list"
  next_id :: nat
  headerin_pending :: "packet list"
  stack :: "work list"
  trace :: "event list"
  engine :: "'e"

datatype 'a outcome = Return 'a | Throw exn 'a

subsection \<open>The constructor (lines 28-57)\<close>

definition Decoder :: "'e \<Rightarrow> 'e decoder" where
  "Decoder e =
     \<lparr> stream_attached = True, stream_ref = True, headerCount = 3,
       blockin = False, gotEos = False,
       on_pcmout = [], on_blockin = [], next_id = 0,
       headerin_pending = [], stack = [], trace = [], engine = e \<rparr>"

subsection \<open>The methods\<close>

definition log :: "event list \<Rightarrow> 'e decoder \<Rightarrow> 'e decoder" where
  "log evs s = s\<lparr>trace := trace s @ evs\<rparr>"

text \<open>\<open>this.once('pcmout', this.packetin.bind(this, packet, done))\<close>\<close>

definition once_pcmout :: "packet \<Rightarrow> 'e decoder \<Rightarrow> 'e decoder" where
  "once_pcmout p s =
     s\<lparr>on_pcmout := on_pcmout s @ [(next_id s, p)], next_id := Suc (next_id s)\<rparr>"

text \<open>\<open>this.once('blockin', this._read.bind(this, bytes, done))\<close>\<close>

definition once_blockin :: "nat \<Rightarrow> 'e decoder \<Rightarrow> 'e decoder" where
  "once_blockin n s =
     s\<lparr>on_blockin := on_blockin s @ [(next_id s, n)], next_id := Suc (next_id s)\<rparr>"

text \<open>
  \<open>this.emit('blockin')\<close> and \<open>this.emit('pcmout')\<close>: the calls of the listeners become
  pending, on top of what was pending before.  \<open>after\<close> is what the emitting method does
  when \<open>emit\<close> has returned.
\<close>

definition emit_blockin :: "work list \<Rightarrow> 'e decoder \<Rightarrow> 'e decoder" where
  "emit_blockin after s =
     (log [Emit_blockin] s)
       \<lparr>stack := map (\<lambda>(i, n). Fire_blockin i n) (on_blockin s) @ after @ stack s\<rparr>"

definition emit_pcmout :: "'e decoder \<Rightarrow> 'e decoder" where
  "emit_pcmout s =
     (log [Emit_pcmout] s)
       \<lparr>stack := map (\<lambda>(i, p). Fire_pcmout i p) (on_pcmout s) @ stack s\<rparr>"

text \<open>
  \<open>_error\<close> (lines 191-195): \<open>this._stream.removeListener('packet', this.packetin);
  this._stream = null; this.emit('error', err)\<close>.  When \<open>this._stream\<close> is already null
  the first statement throws a TypeError.
\<close>

definition error' :: "error \<Rightarrow> 'e decoder \<Rightarrow> 'e decoder outcome" where
  "error' err s =
     (if stream_ref s
      then Return (log [Remove_listener, Emit_error err]
                     (s\<lparr>stream_attached := False, stream_ref := False\<rparr>))
      else Throw TypeError s)"

text \<open>\<open>_synthesis_init\<close> (lines 173-185) returns an Error or undefined.\<close>

definition synthesis_init :: "'e binding \<Rightarrow> 'e decoder \<Rightarrow> error option \<times> 'e decoder" where
  "synthesis_init bnd s =
     (let (r, e1) = vorbis_synthesis_init bnd (engine s);
          s1 = log [Call_synthesis_init r] (s\<lparr>engine := e1\<rparr>)
      in if r \<noteq> 0 then (Some (Init_failed r), s1)
         else
           let (r2, e2) = vorbis_block_init bnd (engine s1);
               s2 = log [Call_block_init r2] (s1\<lparr>engine := e2\<rparr>)
           in if r2 \<noteq> 0 then (Some (Init_failed r2), s2) else (None, s2))"

text \<open>
  The callback \<open>function (r) { ... }\<close> (lines 73-96) that \<open>packetin\<close> passes to
  \<open>vorbis_synthesis_headerin\<close>, for the packet \<open>p\<close> of that call, run with the status the
  binding computed.
\<close>

definition headerin_cb :: "'e binding \<Rightarrow> packet \<Rightarrow> 'e decoder \<Rightarrow> 'e decoder" where
  "headerin_cb bnd p s =
     (let (r, e1) = vorbis_synthesis_headerin bnd (engine s) p;
          s1 = log [Ret_headerin p r] (s\<lparr>engine := e1\<rparr>)
      in if r \<noteq> 0 then log [Done_packet p (Some (Headerin_failed r))] s1
         else
           let s2 = s1\<lparr>headerCount := headerCount s1 - 1\<rparr>
           in if headerCount s2 = 0 then
                (case synthesis_init bnd (log [Emit_comments, Emit_format] s2) of
                   (Some err, s3) \<Rightarrow> log [Done_packet p (Some err)] s3
                 | (None, s3) \<Rightarrow> log [Done_packet p None] s3)
              else log [Done_packet p None] s2)"

text \<open>
  \<open>packetin\<close> (lines 65-125), up to the point where it returns or emits 'blockin'.  In the
  header phase it only starts \<open>vorbis_synthesis_headerin\<close>; the callback runs later.
\<close>

definition packetin :: "'e binding \<Rightarrow> packet \<Rightarrow> 'e decoder \<Rightarrow> 'e decoder outcome" where
  "packetin bnd p s =
     (if headerCount s > 0 then
        Return (log [Call_headerin p] (s\<lparr>headerin_pending := headerin_pending s @ [p]\<rparr>))
      else if blockin s then
        Return (once_pcmout p s)
      else
        let (r, e1) = vorbis_synthesis bnd (engine s) p;
            s1 = log [Call_synthesis p r] (s\<lparr>engine := e1\<rparr>)
        in if r \<noteq> 0 then
             (case error' (Synthesis_failed r) s1 of
                Throw x s2 \<Rightarrow> Throw x s2
              | Return s2 \<Rightarrow> Return (log [Next_tick p] s2))
           else
             let s2 = (if e_o_s p then s1\<lparr>gotEos := True\<rparr> else s1);
                 (r2, e2) = vorbis_synthesis_blockin bnd (engine s2);
                 s3 = log [Call_blockin r2] (s2\<lparr>engine := e2\<rparr>)
             in if r2 \<noteq> 0 then
                  (case error' (Blockin_failed r2) s3 of
                     Throw x s4 \<Rightarrow> Throw x s4
                   | Return s4 \<Rightarrow> Return (log [Next_tick p] s4))
                else
                  Return (emit_blockin [Tick p] (s3\<lparr>blockin := True\<rparr>)))"

text \<open>The tests \<open>0 === b\<close> and \<open>b < 0\<close> of \<open>_read\<close>, and the number in its error message.\<close>

definition is_zero :: "pcm \<Rightarrow> bool" where
  "is_zero b = (b = Num 0)"

definition is_negative :: "pcm \<Rightarrow> bool" where
  "is_negative b = (case b of Num k \<Rightarrow> k < 0 | Buf _ \<Rightarrow> False)"

definition number_of :: "pcm \<Rightarrow> int" where
  "number_of b = (case b of Num k \<Rightarrow> k | Buf _ \<Rightarrow> 0)"

text \<open>\<open>_read\<close> (lines 133-163), up to the point where it returns or emits 'pcmout'.\<close>

definition read' :: "'e binding \<Rightarrow> nat \<Rightarrow> 'e decoder \<Rightarrow> 'e decoder" where
  "read' bnd n s =
     (if \<not> blockin s then once_blockin n s
      else
        let (b, e1) = vorbis_synthesis_pcmout bnd (engine s);
            s1 = log [Call_pcmout b] (s\<lparr>engine := e1\<rparr>)
        in if is_zero b then
             let s2 = s1\<lparr>blockin := False\<rparr>;
                 s3 = (if gotEos s2 then log [Done_read n Eof] s2 else once_blockin n s2)
             in emit_pcmout s3
           else if is_negative b then
             log [Done_read n (Failure (Pcmout_failed (number_of b)))] s1
           else
             log [Done_read n (Chunk b)] s1)"

subsection \<open>The event loop\<close>

text \<open>
  One step of the machine.  \<open>Packet_ev p\<close> is the stream emitting 'packet'; \<open>Headerin_cb\<close> is
  the binding answering the oldest outstanding \<open>vorbis_synthesis_headerin\<close>; \<open>Read_ev n\<close> is
  the consumer's \<open>_read(n, done)\<close>; \<open>Tau\<close> runs the next pending call of an \<open>emit\<close> in
  progress.  The first three come from the event loop and so only when no call is pending;
  a step that cannot happen is \<open>None\<close>.  A TypeError unwinds every pending call.
\<close>

datatype label = Packet_ev packet | Headerin_cb | Read_ev nat | Tau

definition unwind :: "'e decoder outcome \<Rightarrow> 'e decoder" where
  "unwind out =
     (case out of Return s \<Rightarrow> s | Throw x s \<Rightarrow> log [Uncaught x] (s\<lparr>stack := []\<rparr>))"

definition run_work :: "'e binding \<Rightarrow> work \<Rightarrow> 'e decoder \<Rightarrow> 'e decoder" where
  "run_work bnd w s =
     (case w of
        Fire_pcmout i p \<Rightarrow>
          if (i, p) \<in> set (on_pcmout s)
          then unwind (packetin bnd p (s\<lparr>on_pcmout := removeAll (i, p) (on_pcmout s)\<rparr>))
          else s
      | Fire_blockin i n \<Rightarrow>
          if (i, n) \<in> set (on_blockin s)
          then read' bnd n (s\<lparr>on_blockin := removeAll (i, n) (on_blockin s)\<rparr>)
          else s
      | Tick p \<Rightarrow> log [Next_tick p] s)"

definition step :: "'e binding \<Rightarrow> label \<Rightarrow> 'e decoder \<Rightarrow> 'e decoder option" where
  "step bnd l s =
     (case l of
        Packet_ev p \<Rightarrow>
          if stack s \<noteq> [] then None
          else if stream_attached s then Some (unwind (packetin bnd p (log [Rx_packet p] s)))
          else Some s
      | Headerin_cb \<Rightarrow>
          (case headerin_pending s of
             [] \<Rightarrow> None
           | p # ps \<Rightarrow>
               if stack s \<noteq> [] then None
               else Some (headerin_cb bnd p (s\<lparr>headerin_pending := ps\<rparr>)))
      | Read_ev n \<Rightarrow>
          if stack s \<noteq> [] then None
          else Some (read' bnd n (log [Rx_read n] s))
      | Tau \<Rightarrow>
          (case stack s of
             [] \<Rightarrow> None
           | w # ws \<Rightarrow> Some (run_work bnd w (s\<lparr>stack := ws\<rparr>))))"

text \<open>
  An execution: the steps of a list of labels, under a condition \<open>ok\<close> that the environment
  keeps at every step (\<open>None\<close> when a step cannot happen or the environment breaks \<open>ok\<close>).
\<close>

fun run_with :: "('e decoder \<Rightarrow> label \<Rightarrow> bool) \<Rightarrow> 'e binding \<Rightarrow> label list \<Rightarrow> 'e decoder
                 \<Rightarrow> 'e decoder option" where
  "run_with ok bnd [] s = Some s"
| "run_with ok bnd (l # ls) s =
     (if ok s l then
        (case step bnd l s of None \<Rightarrow> None | Some s' \<Rightarrow> run_with ok bnd ls s')
      else None)"

definition any_env :: "'e decoder \<Rightarrow> label \<Rightarrow> bool" where
  "any_env s l = True"

subsection \<open>The contract of the Packet Source\<close>

text \<open>
  The source hands over a packet with a completion callback and sends the next packet only
  after that callback was called (or scheduled with \<open>process.nextTick\<close>): \<open>serial\<close>.  It
  also sends nothing after the packet that carries the end-of-stream mark:
  \<open>well_behaved\<close>.  A packet emitted while \<open>packetin\<close> is not listening does not reach the
  decoder and is not constrained.
\<close>

fun is_submit :: "event \<Rightarrow> bool" where
  "is_submit (Rx_packet p) = True"
| "is_submit _ = False"

fun is_complete :: "event \<Rightarrow> bool" where
  "is_complete (Done_packet p err) = True"
| "is_complete (Next_tick p) = True"
| "is_complete _ = False"

fun is_eos_submit :: "event \<Rightarrow> bool" where
  "is_eos_submit (Rx_packet p) = e_o_s p"
| "is_eos_submit _ = False"

definition submitted :: "event list \<Rightarrow> nat" where
  "submitted tr = length (filter is_submit tr)"

definition completed :: "event list \<Rightarrow> nat" where
  "completed tr = length (filter is_complete tr)"

definition eos_submitted :: "event list \<Rightarrow> bool" where
  "eos_submitted tr = (filter is_eos_submit tr \<noteq> [])"

definition serial :: "'e decoder \<Rightarrow> label \<Rightarrow> bool" where
  "serial s l =
     (case l of
        Packet_ev p \<Rightarrow> stream_attached s \<longrightarrow> submitted (trace s) = completed (trace s)
      | _ \<Rightarrow> True)"

definition well_behaved :: "'e decoder \<Rightarrow> label \<Rightarrow> bool" where
  "well_behaved s l =
     (serial s l \<and>
      (case l of
         Packet_ev p \<Rightarrow> stream_attached s \<longrightarrow> \<not> eos_submitted (trace s)
       | _ \<Rightarrow> True))"

subsection \<open>What is read off the trace\<close>

text \<open>The events a step added to the trace.\<close>

definition fresh :: "'e decoder \<Rightarrow> 'e decoder \<Rightarrow> event list" where
  "fresh s s' = drop (length (trace s)) (trace s')"

text \<open>Calls of the engine's block-submit step, and extractions that returned zero.\<close>

fun is_synthesis :: "event \<Rightarrow> bool" where
  "is_synthesis (Call_synthesis p r) = True"
| "is_synthesis _ = False"

fun is_zero_extract :: "event \<Rightarrow> bool" where
  "is_zero_extract (Call_pcmout b) = is_zero b"
| "is_zero_extract _ = False"

definition synthesis_calls :: "event list \<Rightarrow> nat" where
  "synthesis_calls tr = length (filter is_synthesis tr)"

definition zero_extracts :: "event list \<Rightarrow> nat" where
  "zero_extracts tr = length (filter is_zero_extract tr)"

text \<open>Header packets the engine parsed successfully.\<close>

fun is_header_ok :: "event \<Rightarrow> bool" where
  "is_header_ok (Ret_headerin p r) = (r = 0)"
| "is_header_ok _ = False"

definition headers_ok :: "event list \<Rightarrow> nat" where
  "headers_ok tr = length (filter is_header_ok tr)"

text \<open>Everything of the audio phase: engine calls on audio packets and results of reads.\<close>

fun is_audio :: "event \<Rightarrow> bool" where
  "is_audio (Call_synthesis p r) = True"
| "is_audio (Call_blockin r) = True"
| "is_audio (Call_pcmout b) = True"
| "is_audio (Done_read n res) = True"
| "is_audio _ = False"

fun is_headerin :: "event \<Rightarrow> bool" where
  "is_headerin (Call_headerin p) = True"
| "is_headerin (Ret_headerin p r) = True"
| "is_headerin _ = False"

text \<open>The two notifications of the header phase, and the PCM chunks handed to the reader.\<close>

fun is_chunk :: "event \<Rightarrow> bool" where
  "is_chunk (Done_read n (Chunk b)) = True"
| "is_chunk _ = False"

fun is_notice :: "event \<Rightarrow> bool" where
  "is_notice Emit_comments = True"
| "is_notice Emit_format = True"
| "is_notice _ = False"

definition notices :: "event list \<Rightarrow> event list" where
  "notices tr = filter is_notice tr"

definition notices_and_chunks :: "event list \<Rightarrow> event list" where
  "notices_and_chunks tr = filter (\<lambda>ev. is_notice ev \<or> is_chunk ev) tr"

text \<open>The results handed to the reader, in order.\<close>

fun read_results :: "event list \<Rightarrow> read_result list" where
  "read_results [] = []"
| "read_results (Done_read n res # tr) = res # read_results tr"
| "read_results (ev # tr) = read_results tr"

text \<open>Failures of the two engine steps on an audio packet, and what the decoder raised.\<close>

fun is_decode_failure :: "event \<Rightarrow> bool" where
  "is_decode_failure (Call_synthesis p r) = (r \<noteq> 0)"
| "is_decode_failure (Call_blockin r) = (r \<noteq> 0)"
| "is_decode_failure _ = False"

fun is_error :: "event \<Rightarrow> bool" where
  "is_error (Emit_error err) = True"
| "is_error _ = False"

fun is_uncaught :: "event \<Rightarrow> bool" where
  "is_uncaught (Uncaught x) = True"
| "is_uncaught _ = False"

definition decode_failed :: "event list \<Rightarrow> bool" where
  "decode_failed tr = (filter is_decode_failure tr \<noteq> [])"

definition errors_raised :: "event list \<Rightarrow> nat" where
  "errors_raised tr = length (filter is_error tr)"

definition listener_removals :: "event list \<Rightarrow> nat" where
  "listener_removals tr = length (filter (\<lambda>ev. ev = Remove_listener) tr)"

text \<open>The Decode Session State, with the attachment to the stream.\<close>

definition session :: "'e decoder \<Rightarrow> int \<times> bool \<times> bool \<times> 'e \<times> bool \<times> bool" where
  "session s = (headerCount s, blockin s, gotEos s, engine s, stream_attached s, stream_ref s)"

subsection \<open>A scripted engine for the example executions\<close>

text \<open>
  The engine state is the list of the values its next calls return; a status call reads a
  number, and an exhausted script answers 0.
\<close>

definition next_status :: "pcm list \<Rightarrow> int \<times> pcm list" where
  "next_status e = (case e of [] \<Rightarrow> (0, []) | b # r \<Rightarrow> (number_of b, r))"

definition next_pcm :: "pcm list \<Rightarrow> pcm \<times> pcm list" where
  "next_pcm e = (case e of [] \<Rightarrow> (Num 0, []) | b # r \<Rightarrow> (b, r))"

definition scripted :: "(pcm list) binding" where
  "scripted =
     \<lparr> vorbis_synthesis_headerin = (\<lambda>e p. next_status e),
       vorbis_synthesis_init = next_status,
       vorbis_block_init = next_status,
       vorbis_synthesis = (\<lambda>e p. next_status e),
       vorbis_synthesis_blockin = next_status,
       vorbis_synthesis_pcmout = next_pcm \<rparr>"

subsection \<open>The Readable base class\<close>

text \<open>
  Modelled from the spec: the consumer-facing read of the Readable base class (Node's
  stream module, or the readable-stream package), which \<open>Decoder\<close> inherits and which is not
  part of lib/decoder.js.  It is what calls \<open>_read\<close>.  The spec has the end-of-stream
  result as the terminal read result, which "signals consumer there is no more data,
  ever" (4.3, 6), and one read request at a time: "no new read request is issued until
  woken" (4.4), "exactly one legitimate waiter at a time" (5).  So the base class
  \<^item> is \<open>ended\<close> once a \<open>_read\<close> has answered \<open>done(null, null)\<close>,
  \<^item> is \<open>reading\<close> while a \<open>_read\<close> it has called has not called its \<open>done\<close>,
  \<^item> calls \<open>_read\<close> only when it is neither (\<open>readable\<close>),
  \<^item> and answers a read of the consumer itself with the terminal result when it is
    ended (\<open>consumer_read\<close>: the answer given at once, and the call of \<open>_read\<close> it makes).
  Chunks are taken to pass through to the consumer as \<open>done\<close> hands them over.
\<close>

fun is_read_call :: "event \<Rightarrow> bool" where
  "is_read_call (Rx_read n) = True"
| "is_read_call _ = False"

definition reads_started :: "event list \<Rightarrow> nat" where
  "reads_started tr = length (filter is_read_call tr)"

definition reads_answered :: "event list \<Rightarrow> nat" where
  "reads_answered tr = length (read_results tr)"

definition ended :: "event list \<Rightarrow> bool" where
  "ended tr = (Eof \<in> set (read_results tr))"

definition reading :: "event list \<Rightarrow> bool" where
  "reading tr = (reads_answered tr < reads_started tr)"

definition readable :: "'e decoder \<Rightarrow> label \<Rightarrow> bool" where
  "readable s l =
     (case l of Read_ev n \<Rightarrow> \<not> ended (trace s) \<and> \<not> reading (trace s) | _ \<Rightarrow> True)"

definition consumer_read :: "nat \<Rightarrow> 'e decoder \<Rightarrow> read_result option \<times> label option" where
  "consumer_read n s =
     (if ended (trace s) then (Some Eof, None)
      else if reading (trace s) then (None, None)
      else (None, Some (Read_ev n)))"

subsection \<open>Invariants of the executions\<close>

text \<open>
  The packets the source still waits for: those whose header callback is outstanding,
  those parked on 'pcmout', and those whose completion is about to be scheduled.
\<close>

fun is_tick :: "work \<Rightarrow> bool" where
  "is_tick (Tick p) = True"
| "is_tick _ = False"

definition pend :: "'e decoder \<Rightarrow> nat" where
  "pend s = length (headerin_pending s) + length (on_pcmout s) + length (filter is_tick (stack s))"

definition serial_inv :: "'e decoder \<Rightarrow> bool" where
  "serial_inv s =
     (completed (trace s) + pend s \<le> submitted (trace s) \<and>
      submitted (trace s) \<le> completed (trace s) + 1 \<and>
      stream_attached s = stream_ref s \<and>
      (\<not> stream_ref s \<longrightarrow>
         on_pcmout s = [] \<and> \<not> blockin s \<and> headerin_pending s = [] \<and> headerCount s \<le> 0) \<and>
      (headerCount s > 0 \<longrightarrow> \<not> blockin s \<and> on_pcmout s = []) \<and>
      (headerin_pending s \<noteq> [] \<longrightarrow> headerCount s > 0))"

definition count_inv :: "'e decoder \<Rightarrow> bool" where
  "count_inv s =
     (synthesis_calls (trace s)
        \<le> zero_extracts (trace s) + (if blockin s \<or> \<not> stream_ref s then 1 else 0))"

definition error_inv :: "'e decoder \<Rightarrow> bool" where
  "error_inv s =
     (errors_raised (trace s) = (if stream_ref s then 0 else 1) \<and>
      listener_removals (trace s) = (if stream_ref s then 0 else 1) \<and>
      (decode_failed (trace s) \<longleftrightarrow> \<not> stream_ref s) \<and>
      filter is_uncaught (trace s) = [])"

definition header_inv :: "'e decoder \<Rightarrow> bool" where
  "header_inv s =
     (headerCount s + int (headers_ok (trace s)) = 3 \<and> 0 \<le> headerCount s \<and>
      (headerCount s > 0 \<longrightarrow> filter is_audio (trace s) = []))"

definition notice_inv :: "'e decoder \<Rightarrow> bool" where
  "notice_inv s =
     ((headerCount s > 0 \<longrightarrow> notices_and_chunks (trace s) = [] \<and> \<not> blockin s) \<and>
      (\<not> headerCount s > 0 \<longrightarrow>
         (\<exists>cs. notices_and_chunks (trace s) = Emit_comments # Emit_format # cs \<and>
               (\<forall>c \<in> set cs. is_chunk c))))"

definition eos_inv :: "'e decoder \<Rightarrow> bool" where
  "eos_inv s =
     ((\<forall>x \<in> set (on_pcmout s). e_o_s (snd x) \<longrightarrow> eos_submitted (trace s)) \<and>
      (gotEos s \<longrightarrow> eos_submitted (trace s) \<and> on_pcmout s = []) \<and>
      (Eof \<in> set (read_results (trace s)) \<longrightarrow>
         gotEos s \<and> \<not> blockin s \<and>
         (\<exists>cs. read_results (trace s) = cs @ [Eof] \<and> Eof \<notin> set cs)))"

text \<open>The reads the base class still waits for are those registered for 'blockin'.\<close>

definition read_inv :: "'e decoder \<Rightarrow> bool" where
  "read_inv s =
     (reads_answered (trace s) + length (on_blockin s) \<le> reads_started (trace s) \<and>
      reads_started (trace s) \<le> reads_answered (trace s) + 1 \<and>
      (ended (trace s) \<longrightarrow>
         on_blockin s = [] \<and> reads_started (trace s) = reads_answered (trace s)))"

subsection \<open>Example executions\<close>

text \<open>
  The executions below run the decoder on the scripted engine.  \<open>play script ls\<close> is the
  state after the steps \<open>ls\<close>, with a Packet Source that keeps its contract.
\<close>

definition play :: "pcm list \<Rightarrow> label list \<Rightarrow> pcm list decoder" where
  "play script ls = the (run_with well_behaved scripted ls (Decoder script))"

text \<open>Three header packets, each answered by the binding before the next is sent.\<close>

definition three_headers :: "label list" where
  "three_headers =
     [Packet_ev (Packet 0 False), Headerin_cb,
      Packet_ev (Packet 1 False), Headerin_cb,
      Packet_ev (Packet 2 False), Headerin_cb]"

text \<open>The statuses of a successful setup: three headers and the two initialisations.\<close>

definition setup_ok :: "pcm list" where
  "setup_ok = [Num 0, Num 0, Num 0, Num 0, Num 0]"

text \<open>A decoder whose first header packet is with the binding, which will reject it.\<close>

definition awaiting_first_header :: "pcm list decoder" where
  "awaiting_first_header = play [Num (- 1)] [Packet_ev (Packet 0 False)]"

text \<open>A decoder after one accepted header packet.\<close>

definition one_header_done :: "pcm list decoder" where
  "one_header_done = play setup_ok [Packet_ev (Packet 0 False), Headerin_cb]"

text \<open>
  A decoder whose third header packet is with the binding; the binding will accept it and
  then fail \<open>vorbis_block_init\<close> with -131.
\<close>

definition awaiting_third_header :: "pcm list decoder" where
  "awaiting_third_header =
     play [Num 0, Num 0, Num 0, Num 0, Num (- 131)]
       [Packet_ev (Packet 0 False), Headerin_cb, Packet_ev (Packet 1 False), Headerin_cb,
        Packet_ev (Packet 2 False)]"

text \<open>The same with a binding that accepts everything.\<close>

definition awaiting_last_header :: "pcm list decoder" where
  "awaiting_last_header =
     play setup_ok
       [Packet_ev (Packet 0 False), Headerin_cb, Packet_ev (Packet 1 False), Headerin_cb,
        Packet_ev (Packet 2 False)]"

text \<open>After the headers; the next engine call will fail with -1.\<close>

definition headers_done_then_failure :: "pcm list decoder" where
  "headers_done_then_failure = play (setup_ok @ [Num (- 1)]) three_headers"

text \<open>After the headers; the next engine call will succeed and the one after fail with -2.\<close>

definition headers_done_then_second_failure :: "pcm list decoder" where
  "headers_done_then_second_failure = play (setup_ok @ [Num 0, Num (- 2)]) three_headers"

text \<open>After the headers, with a binding that accepts everything.\<close>

definition headers_done :: "pcm list decoder" where
  "headers_done = play setup_ok three_headers"

text \<open>
  One audio packet decoded and its completion scheduled, then a second packet arrives
  while the block is still there; the next extraction will return 0.
\<close>

definition second_packet_arrives :: "label list" where
  "second_packet_arrives =
     three_headers @ [Packet_ev (Packet 3 False), Tau, Packet_ev (Packet 4 False)]"

definition second_packet_parked :: "pcm list decoder" where
  "second_packet_parked = play setup_ok second_packet_arrives"

text \<open>The first audio packet fails in \<open>vorbis_synthesis\<close>.\<close>

definition first_packet_fails :: "label list" where
  "first_packet_fails = three_headers @ [Packet_ev (Packet 3 False)]"

definition after_decode_failure :: "pcm list decoder" where
  "after_decode_failure = play (setup_ok @ [Num (- 1)]) first_packet_fails"

text \<open>
  The last packet of a stream: it carries the end-of-stream mark, its block yields four
  bytes and then nothing.
\<close>

definition last_packet_script :: "pcm list" where
  "last_packet_script = setup_ok @ [Num 0, Num 0, Buf [1, 2, 3, 4], Num 0]"

definition last_packet_decoded :: "label list" where
  "last_packet_decoded = three_headers @ [Packet_ev (Packet 3 True), Tau]"

definition last_chunk_read :: "pcm list decoder" where
  "last_chunk_read = play last_packet_script (last_packet_decoded @ [Read_ev 4096])"

definition stream_read_to_end :: "label list" where
  "stream_read_to_end = last_packet_decoded @ [Read_ev 4096, Read_ev 4096]"

definition at_end_of_stream :: "pcm list decoder" where
  "at_end_of_stream = play last_packet_script stream_read_to_end"

text \<open>The second of three header packets is rejected; one header is still missing.\<close>

definition second_header_rejected :: "pcm list decoder" where
  "second_header_rejected = play [Num 0, Num (- 1), Num 0] three_headers"

text \<open>The first header packet is rejected.\<close>

definition first_header_rejected :: "pcm list decoder" where
  "first_header_rejected = play [Num (- 1)] [Packet_ev (Packet 0 False), Headerin_cb]"

text \<open>
  An extraction fails with -3; then a packet arrives, and the next extraction returns 0.
\<close>

definition extract_error_script :: "pcm list" where
  "extract_error_script = setup_ok @ [Num 0, Num 0, Num (- 3), Num 0, Num 0, Num 0]"

definition block_ready :: "label list" where
  "block_ready = three_headers @ [Packet_ev (Packet 3 False), Tau]"

definition before_extract_error :: "pcm list decoder" where
  "before_extract_error = play extract_error_script block_ready"

text \<open>One audio packet decoded; the next extraction will return 0.\<close>

definition block_ready_then_dry :: "pcm list decoder" where
  "block_ready_then_dry = play setup_ok block_ready"

definition packet_after_extract_error :: "label list" where
  "packet_after_extract_error =
     block_ready @ [Read_ev 4096, Packet_ev (Packet 4 False), Read_ev 4096, Tau]"

section \<open>Lemmas\<close>

subsection \<open>The branches of the methods\<close>

lemma packetin_cases [case_names hdr park sfail sthrow afail athrow ok]:
  obtains
    (hdr) "headerCount s > 0"
      "unwind (packetin bnd p s) =
         s\<lparr>headerin_pending := headerin_pending s @ [p], trace := trace s @ [Call_headerin p]\<rparr>"
  | (park) "\<not> headerCount s > 0" "blockin s"
      "unwind (packetin bnd p s) =
         s\<lparr>on_pcmout := on_pcmout s @ [(next_id s, p)], next_id := Suc (next_id s)\<rparr>"
  | (sfail) r e1 where "\<not> headerCount s > 0" "\<not> blockin s" "stream_ref s"
      "vorbis_synthesis bnd (engine s) p = (r, e1)" "r \<noteq> 0"
      "unwind (packetin bnd p s) =
         s\<lparr>engine := e1, stream_attached := False, stream_ref := False,
           trace := trace s @ [Call_synthesis p r, Remove_listener,
                               Emit_error (Synthesis_failed r), Next_tick p]\<rparr>"
  | (sthrow) r e1 where "\<not> headerCount s > 0" "\<not> blockin s" "\<not> stream_ref s"
      "vorbis_synthesis bnd (engine s) p = (r, e1)" "r \<noteq> 0"
      "unwind (packetin bnd p s) =
         s\<lparr>engine := e1, stack := [],
           trace := trace s @ [Call_synthesis p r, Uncaught TypeError]\<rparr>"
  | (afail) e1 r2 e2 where "\<not> headerCount s > 0" "\<not> blockin s" "stream_ref s"
      "vorbis_synthesis bnd (engine s) p = (0, e1)"
      "vorbis_synthesis_blockin bnd e1 = (r2, e2)" "r2 \<noteq> 0"
      "unwind (packetin bnd p s) =
         s\<lparr>engine := e2, gotEos := (gotEos s \<or> e_o_s p),
           stream_attached := False, stream_ref := False,
           trace := trace s @ [Call_synthesis p 0, Call_blockin r2, Remove_listener,
                               Emit_error (Blockin_failed r2), Next_tick p]\<rparr>"
  | (athrow) e1 r2 e2 where "\<not> headerCount s > 0" "\<not> blockin s" "\<not> stream_ref s"
      "vorbis_synthesis bnd (engine s) p = (0, e1)"
      "vorbis_synthesis_blockin bnd e1 = (r2, e2)" "r2 \<noteq> 0"
      "unwind (packetin bnd p s) =
         s\<lparr>engine := e2, gotEos := (gotEos s \<or> e_o_s p), stack := [],
           trace := trace s @ [Call_synthesis p 0, Call_blockin r2, Uncaught TypeError]\<rparr>"
  | (ok) e1 e2 where "\<not> headerCount s > 0" "\<not> blockin s"
      "vorbis_synthesis bnd (engine s) p = (0, e1)"
      "vorbis_synthesis_blockin bnd e1 = (0, e2)"
      "unwind (packetin bnd p s) =
         s\<lparr>engine := e2, gotEos := (gotEos s \<or> e_o_s p), blockin := True,
           stack := map (\<lambda>(i, n). Fire_blockin i n) (on_blockin s) @ [Tick p] @ stack s,
           trace := trace s @ [Call_synthesis p 0, Call_blockin 0, Emit_blockin]\<rparr>"
proof -
  obtain r e1 where syn: "vorbis_synthesis bnd (engine s) p = (r, e1)"
    by (cases "vorbis_synthesis bnd (engine s) p")
  obtain r2 e2 where acc: "vorbis_synthesis_blockin bnd e1 = (r2, e2)"
    by (cases "vorbis_synthesis_blockin bnd e1")
  consider "headerCount s > 0" | "\<not> headerCount s > 0" "blockin s"
    | "\<not> headerCount s > 0" "\<not> blockin s" "r \<noteq> 0" "stream_ref s"
    | "\<not> headerCount s > 0" "\<not> blockin s" "r \<noteq> 0" "\<not> stream_ref s"
    | "\<not> headerCount s > 0" "\<not> blockin s" "r = 0" "r2 \<noteq> 0" "stream_ref s"
    | "\<not> headerCount s > 0" "\<not> blockin s" "r = 0" "r2 \<noteq> 0" "\<not> stream_ref s"
    | "\<not> headerCount s > 0" "\<not> blockin s" "r = 0" "r2 = 0"
    by blast
  then show thesis
  proof cases
    case 1
    then show thesis
      by (intro hdr) (simp_all add: packetin_def log_def unwind_def)
  next
    case 2
    then show thesis
      by (intro park) (simp_all add: packetin_def once_pcmout_def unwind_def)
  next
    case 3
    with syn show thesis
      by (intro sfail [of r e1]) (simp_all add: packetin_def log_def error'_def unwind_def)
  next
    case 4
    with syn show thesis
      by (intro sthrow [of r e1]) (simp_all add: packetin_def log_def error'_def unwind_def)
  next
    case 5
    with syn acc show thesis
      by (intro afail [of e1 r2 e2]; cases "e_o_s p")
         (simp_all add: packetin_def log_def error'_def unwind_def Let_def)
  next
    case 6
    with syn acc show thesis
      by (intro athrow [of e1 r2 e2]; cases "e_o_s p")
         (simp_all add: packetin_def log_def error'_def unwind_def Let_def)
  next
    case 7
    with syn acc show thesis
      by (intro ok [of e1 e2]; cases "e_o_s p")
         (simp_all add: packetin_def log_def emit_blockin_def unwind_def Let_def)
  qed
qed

lemma read_cases [case_names wait eof dry neg chunk]:
  obtains
    (wait) "\<not> blockin s"
      "read' bnd n s =
         s\<lparr>on_blockin := on_blockin s @ [(next_id s, n)], next_id := Suc (next_id s)\<rparr>"
  | (eof) b e1 where "blockin s" "vorbis_synthesis_pcmout bnd (engine s) = (b, e1)"
      "is_zero b" "gotEos s"
      "read' bnd n s =
         s\<lparr>engine := e1, blockin := False,
           stack := map (\<lambda>(i, p). Fire_pcmout i p) (on_pcmout s) @ stack s,
           trace := trace s @ [Call_pcmout b, Done_read n Eof, Emit_pcmout]\<rparr>"
  | (dry) b e1 where "blockin s" "vorbis_synthesis_pcmout bnd (engine s) = (b, e1)"
      "is_zero b" "\<not> gotEos s"
      "read' bnd n s =
         s\<lparr>engine := e1, blockin := False,
           on_blockin := on_blockin s @ [(next_id s, n)], next_id := Suc (next_id s),
           stack := map (\<lambda>(i, p). Fire_pcmout i p) (on_pcmout s) @ stack s,
           trace := trace s @ [Call_pcmout b, Emit_pcmout]\<rparr>"
  | (neg) b e1 where "blockin s" "vorbis_synthesis_pcmout bnd (engine s) = (b, e1)"
      "\<not> is_zero b" "is_negative b"
      "read' bnd n s =
         s\<lparr>engine := e1,
           trace := trace s @ [Call_pcmout b,
                               Done_read n (Failure (Pcmout_failed (number_of b)))]\<rparr>"
  | (chunk) b e1 where "blockin s" "vorbis_synthesis_pcmout bnd (engine s) = (b, e1)"
      "\<not> is_zero b" "\<not> is_negative b"
      "read' bnd n s =
         s\<lparr>engine := e1, trace := trace s @ [Call_pcmout b, Done_read n (Chunk b)]\<rparr>"
proof -
  obtain b e1 where out: "vorbis_synthesis_pcmout bnd (engine s) = (b, e1)"
    by (cases "vorbis_synthesis_pcmout bnd (engine s)")
  consider "\<not> blockin s" | "blockin s" "is_zero b" "gotEos s"
    | "blockin s" "is_zero b" "\<not> gotEos s" | "blockin s" "\<not> is_zero b" "is_negative b"
    | "blockin s" "\<not> is_zero b" "\<not> is_negative b"
    by blast
  then show thesis
  proof cases
    case 1
    then show thesis
      by (intro wait) (simp_all add: read'_def once_blockin_def)
  next
    case 2
    with out show thesis
      by (intro eof [of b e1])
         (simp_all add: read'_def log_def emit_pcmout_def Let_def)
  next
    case 3
    with out show thesis
      by (intro dry [of b e1])
         (simp_all add: read'_def log_def emit_pcmout_def once_blockin_def Let_def)
  next
    case 4
    with out show thesis
      by (intro neg [of b e1]) (simp_all add: read'_def log_def Let_def)
  next
    case 5
    with out show thesis
      by (intro chunk [of b e1]) (simp_all add: read'_def log_def Let_def)
  qed
qed

lemma headerin_cb_cases [case_names fail more init1 init2 ready]:
  obtains
    (fail) r e1 where "vorbis_synthesis_headerin bnd (engine s) p = (r, e1)" "r \<noteq> 0"
      "headerin_cb bnd p s =
         s\<lparr>engine := e1,
           trace := trace s @ [Ret_headerin p r, Done_packet p (Some (Headerin_failed r))]\<rparr>"
  | (more) e1 where "vorbis_synthesis_headerin bnd (engine s) p = (0, e1)"
      "headerCount s \<noteq> 1"
      "headerin_cb bnd p s =
         s\<lparr>engine := e1, headerCount := headerCount s - 1,
           trace := trace s @ [Ret_headerin p 0, Done_packet p None]\<rparr>"
  | (init1) e1 r1 e2 where "vorbis_synthesis_headerin bnd (engine s) p = (0, e1)"
      "headerCount s = 1" "vorbis_synthesis_init bnd e1 = (r1, e2)" "r1 \<noteq> 0"
      "headerin_cb bnd p s =
         s\<lparr>engine := e2, headerCount := 0,
           trace := trace s @ [Ret_headerin p 0, Emit_comments, Emit_format,
                               Call_synthesis_init r1,
                               Done_packet p (Some (Init_failed r1))]\<rparr>"
  | (init2) e1 e2 r2 e3 where "vorbis_synthesis_headerin bnd (engine s) p = (0, e1)"
      "headerCount s = 1" "vorbis_synthesis_init bnd e1 = (0, e2)"
      "vorbis_block_init bnd e2 = (r2, e3)" "r2 \<noteq> 0"
      "headerin_cb bnd p s =
         s\<lparr>engine := e3, headerCount := 0,
           trace := trace s @ [Ret_headerin p 0, Emit_comments, Emit_format,
                               Call_synthesis_init 0, Call_block_init r2,
                               Done_packet p (Some (Init_failed r2))]\<rparr>"
  | (ready) e1 e2 e3 where "vorbis_synthesis_headerin bnd (engine s) p = (0, e1)"
      "headerCount s = 1" "vorbis_synthesis_init bnd e1 = (0, e2)"
      "vorbis_block_init bnd e2 = (0, e3)"
      "headerin_cb bnd p s =
         s\<lparr>engine := e3, headerCount := 0,
           trace := trace s @ [Ret_headerin p 0, Emit_comments, Emit_format,
                               Call_synthesis_init 0, Call_block_init 0,
                               Done_packet p None]\<rparr>"
proof -
  obtain r e1 where hdr: "vorbis_synthesis_headerin bnd (engine s) p = (r, e1)"
    by (cases "vorbis_synthesis_headerin bnd (engine s) p")
  obtain r1 e2 where ini: "vorbis_synthesis_init bnd e1 = (r1, e2)"
    by (cases "vorbis_synthesis_init bnd e1")
  obtain r2 e3 where blk: "vorbis_block_init bnd e2 = (r2, e3)"
    by (cases "vorbis_block_init bnd e2")
  consider "r \<noteq> 0" | "r = 0" "headerCount s \<noteq> 1" | "r = 0" "headerCount s = 1" "r1 \<noteq> 0"
    | "r = 0" "headerCount s = 1" "r1 = 0" "r2 \<noteq> 0"
    | "r = 0" "headerCount s = 1" "r1 = 0" "r2 = 0"
    by blast
  then show thesis
  proof cases
    case 1
    with hdr show thesis
      by (intro fail [of r e1]) (simp_all add: headerin_cb_def log_def)
  next
    case 2
    with hdr show thesis
      by (intro more [of e1]) (simp_all add: headerin_cb_def log_def)
  next
    case 3
    with hdr ini show thesis
      by (intro init1 [of e1 r1 e2])
         (simp_all add: headerin_cb_def synthesis_init_def log_def)
  next
    case 4
    with hdr ini blk show thesis
      by (intro init2 [of e1 e2 r2 e3])
         (simp_all add: headerin_cb_def synthesis_init_def log_def)
  next
    case 5
    with hdr ini blk show thesis
      by (intro ready [of e1 e2 e3])
         (simp_all add: headerin_cb_def synthesis_init_def log_def)
  qed
qed

subsection \<open>The steps of the machine\<close>

lemma step_cases [consumes 1, case_names
    dropped p_hdr p_park p_sfail p_sthrow p_afail p_athrow p_ok f_stale f_hdr f_park f_sfail
    f_sthrow f_afail f_athrow f_ok h_fail h_more h_init1 h_init2 h_ready r_wait r_eof r_dry
    r_neg r_chunk b_stale b_wait b_eof b_dry b_neg b_chunk tick]:
  assumes "step bnd l s = Some s'"
  obtains
    (dropped) p where "l = Packet_ev p" "stack s = []" "\<not> stream_attached s"
      "s' = s"
  | (p_hdr) p where "l = Packet_ev p" "stack s = []" "stream_attached s" "headerCount s > 0"
      "s' = s\<lparr>headerin_pending := headerin_pending s @ [p],
           trace := trace s @ [Rx_packet p, Call_headerin p]\<rparr>"
  | (p_park) p where
      "l = Packet_ev p" "stack s = []" "stream_attached s" "\<not> headerCount s > 0" "blockin s"
      "s' = s\<lparr>on_pcmout := on_pcmout s @ [(next_id s, p)], next_id := Suc (next_id s),
           trace := trace s @ [Rx_packet p]\<rparr>"
  | (p_sfail) p r e1 where
      "l = Packet_ev p" "stack s = []" "stream_attached s" "\<not> headerCount s > 0" "\<not> blockin s"
      "stream_ref s" "vorbis_synthesis bnd (engine s) p = (r, e1)" "r \<noteq> 0"
      "s' = s\<lparr>engine := e1, stream_attached := False, stream_ref := False,
           trace := trace s @ [Rx_packet p, Call_synthesis p r, Remove_listener,
             Emit_error (Synthesis_failed r), Next_tick p]\<rparr>"
  | (p_sthrow) p r e1 where
      "l = Packet_ev p" "stack s = []" "stream_attached s" "\<not> headerCount s > 0" "\<not> blockin s"
      "\<not> stream_ref s" "vorbis_synthesis bnd (engine s) p = (r, e1)" "r \<noteq> 0"
      "s' = s\<lparr>engine := e1,
           trace := trace s @ [Rx_packet p, Call_synthesis p r, Uncaught TypeError]\<rparr>"
  | (p_afail) p e1 r2 e2 where
      "l = Packet_ev p" "stack s = []" "stream_attached s" "\<not> headerCount s > 0" "\<not> blockin s"
      "stream_ref s" "vorbis_synthesis bnd (engine s) p = (0, e1)"
      "vorbis_synthesis_blockin bnd e1 = (r2, e2)" "r2 \<noteq> 0"
      "s' = s\<lparr>engine := e2, gotEos := (gotEos s \<or> e_o_s p), stream_attached := False,
           stream_ref := False,
           trace := trace s @ [Rx_packet p, Call_synthesis p 0, Call_blockin r2,
             Remove_listener, Emit_error (Blockin_failed r2), Next_tick p]\<rparr>"
  | (p_athrow) p e1 r2 e2 where
      "l = Packet_ev p" "stack s = []" "stream_attached s" "\<not> headerCount s > 0" "\<not> blockin s"
      "\<not> stream_ref s" "vorbis_synthesis bnd (engine s) p = (0, e1)"
      "vorbis_synthesis_blockin bnd e1 = (r2, e2)" "r2 \<noteq> 0"
      "s' = s\<lparr>engine := e2, gotEos := (gotEos s \<or> e_o_s p),
           trace := trace s @ [Rx_packet p, Call_synthesis p 0, Call_blockin r2,
             Uncaught TypeError]\<rparr>"
  | (p_ok) p e1 e2 where
      "l = Packet_ev p" "stack s = []" "stream_attached s" "\<not> headerCount s > 0" "\<not> blockin s"
      "vorbis_synthesis bnd (engine s) p = (0, e1)" "vorbis_synthesis_blockin bnd e1 = (0, e2)"
      "s' = s\<lparr>engine := e2, gotEos := (gotEos s \<or> e_o_s p), blockin := True,
           stack := map (\<lambda>(i, n). Fire_blockin i n) (on_blockin s) @ [Tick p],
           trace := trace s @ [Rx_packet p, Call_synthesis p 0, Call_blockin 0, Emit_blockin]\<rparr>"
  | (f_stale) i p ws where "l = Tau" "stack s = Fire_pcmout i p # ws" "(i, p) \<notin> set (on_pcmout s)"
      "s' = s\<lparr>stack := ws\<rparr>"
  | (f_hdr) i p ws where
      "l = Tau" "stack s = Fire_pcmout i p # ws" "(i, p) \<in> set (on_pcmout s)" "headerCount s > 0"
      "s' = s\<lparr>stack := ws, on_pcmout := removeAll (i, p) (on_pcmout s),
           headerin_pending := headerin_pending s @ [p], trace := trace s @ [Call_headerin p]\<rparr>"
  | (f_park) i p ws where
      "l = Tau" "stack s = Fire_pcmout i p # ws" "(i, p) \<in> set (on_pcmout s)"
      "\<not> headerCount s > 0" "blockin s"
      "s' = s\<lparr>stack := ws, on_pcmout := removeAll (i, p) (on_pcmout s) @ [(next_id s, p)],
           next_id := Suc (next_id s)\<rparr>"
  | (f_sfail) i p ws r e1 where
      "l = Tau" "stack s = Fire_pcmout i p # ws" "(i, p) \<in> set (on_pcmout s)"
      "\<not> headerCount s > 0" "\<not> blockin s" "stream_ref s"
      "vorbis_synthesis bnd (engine s) p = (r, e1)" "r \<noteq> 0"
      "s' = s\<lparr>stack := ws, on_pcmout := removeAll (i, p) (on_pcmout s), engine := e1,
           stream_attached := False, stream_ref := False,
           trace := trace s @ [Call_synthesis p r, Remove_listener,
             Emit_error (Synthesis_failed r), Next_tick p]\<rparr>"
  | (f_sthrow) i p ws r e1 where
      "l = Tau" "stack s = Fire_pcmout i p # ws" "(i, p) \<in> set (on_pcmout s)"
      "\<not> headerCount s > 0" "\<not> blockin s" "\<not> stream_ref s"
      "vorbis_synthesis bnd (engine s) p = (r, e1)" "r \<noteq> 0"
      "s' = s\<lparr>stack := [], on_pcmout := removeAll (i, p) (on_pcmout s), engine := e1,
           trace := trace s @ [Call_synthesis p r, Uncaught TypeError]\<rparr>"
  | (f_afail) i p ws e1 r2 e2 where
      "l = Tau" "stack s = Fire_pcmout i p # ws" "(i, p) \<in> set (on_pcmout s)"
      "\<not> headerCount s > 0" "\<not> blockin s" "stream_ref s"
      "vorbis_synthesis bnd (engine s) p = (0, e1)" "vorbis_synthesis_blockin bnd e1 = (r2, e2)"
      "r2 \<noteq> 0"
      "s' = s\<lparr>stack := ws, on_pcmout := removeAll (i, p) (on_pcmout s), engine := e2,
           gotEos := (gotEos s \<or> e_o_s p), stream_attached := False, stream_ref := False,
           trace := trace s @ [Call_synthesis p 0, Call_blockin r2, Remove_listener,
             Emit_error (Blockin_failed r2), Next_tick p]\<rparr>"
  | (f_athrow) i p ws e1 r2 e2 where
      "l = Tau" "stack s = Fire_pcmout i p # ws" "(i, p) \<in> set (on_pcmout s)"
      "\<not> headerCount s > 0" "\<not> blockin s" "\<not> stream_ref s"
      "vorbis_synthesis bnd (engine s) p = (0, e1)" "vorbis_synthesis_blockin bnd e1 = (r2, e2)"
      "r2 \<noteq> 0"
      "s' = s\<lparr>stack := [], on_pcmout := removeAll (i, p) (on_pcmout s), engine := e2,
           gotEos := (gotEos s \<or> e_o_s p),
           trace := trace s @ [Call_synthesis p 0, Call_blockin r2, Uncaught TypeError]\<rparr>"
  | (f_ok) i p ws e1 e2 where
      "l = Tau" "stack s = Fire_pcmout i p # ws" "(i, p) \<in> set (on_pcmout s)"
      "\<not> headerCount s > 0" "\<not> blockin s" "vorbis_synthesis bnd (engine s) p = (0, e1)"
      "vorbis_synthesis_blockin bnd e1 = (0, e2)"
      "s' = s\<lparr>on_pcmout := removeAll (i, p) (on_pcmout s), engine := e2,
           gotEos := (gotEos s \<or> e_o_s p), blockin := True,
           stack := map (\<lambda>(i, n). Fire_blockin i n) (on_blockin s) @ Tick p # ws,
           trace := trace s @ [Call_synthesis p 0, Call_blockin 0, Emit_blockin]\<rparr>"
  | (h_fail) p ps r e1 where
      "l = Headerin_cb" "headerin_pending s = p # ps" "stack s = []"
      "vorbis_synthesis_headerin bnd (engine s) p = (r, e1)" "r \<noteq> 0"
      "s' = s\<lparr>headerin_pending := ps, engine := e1,
           trace := trace s @ [Ret_headerin p r, Done_packet p (Some (Headerin_failed r))]\<rparr>"
  | (h_more) p ps e1 where
      "l = Headerin_cb" "headerin_pending s = p # ps" "stack s = []"
      "vorbis_synthesis_headerin bnd (engine s) p = (0, e1)" "headerCount s \<noteq> 1"
      "s' = s\<lparr>headerin_pending := ps, engine := e1, headerCount := headerCount s - 1,
           trace := trace s @ [Ret_headerin p 0, Done_packet p None]\<rparr>"
  | (h_init1) p ps e1 r1 e2 where
      "l = Headerin_cb" "headerin_pending s = p # ps" "stack s = []"
      "vorbis_synthesis_headerin bnd (engine s) p = (0, e1)" "headerCount s = 1"
      "vorbis_synthesis_init bnd e1 = (r1, e2)" "r1 \<noteq> 0"
      "s' = s\<lparr>headerin_pending := ps, engine := e2, headerCount := 0,
           trace := trace s @ [Ret_headerin p 0, Emit_comments, Emit_format,
             Call_synthesis_init r1, Done_packet p (Some (Init_failed r1))]\<rparr>"
  | (h_init2) p ps e1 e2 r2 e3 where
      "l = Headerin_cb" "headerin_pending s = p # ps" "stack s = []"
      "vorbis_synthesis_headerin bnd (engine s) p = (0, e1)" "headerCount s = 1"
      "vorbis_synthesis_init bnd e1 = (0, e2)" "vorbis_block_init bnd e2 = (r2, e3)" "r2 \<noteq> 0"
      "s' = s\<lparr>headerin_pending := ps, engine := e3, headerCount := 0,
           trace := trace s @ [Ret_headerin p 0, Emit_comments, Emit_format,
             Call_synthesis_init 0, Call_block_init r2, Done_packet p (Some (Init_failed r2))]\<rparr>"
  | (h_ready) p ps e1 e2 e3 where
      "l = Headerin_cb" "headerin_pending s = p # ps" "stack s = []"
      "vorbis_synthesis_headerin bnd (engine s) p = (0, e1)" "headerCount s = 1"
      "vorbis_synthesis_init bnd e1 = (0, e2)" "vorbis_block_init bnd e2 = (0, e3)"
      "s' = s\<lparr>headerin_pending := ps, engine := e3, headerCount := 0,
           trace := trace s @ [Ret_headerin p 0, Emit_comments, Emit_format,
             Call_synthesis_init 0, Call_block_init 0, Done_packet p None]\<rparr>"
  | (r_wait) n where "l = Read_ev n" "stack s = []" "\<not> blockin s"
      "s' = s\<lparr>on_blockin := on_blockin s @ [(next_id s, n)], next_id := Suc (next_id s),
           trace := trace s @ [Rx_read n]\<rparr>"
  | (r_eof) n b e1 where
      "l = Read_ev n" "stack s = []" "blockin s"
      "vorbis_synthesis_pcmout bnd (engine s) = (b, e1)" "is_zero b" "gotEos s"
      "s' = s\<lparr>engine := e1, blockin := False,
           stack := map (\<lambda>(i, p). Fire_pcmout i p) (on_pcmout s),
           trace := trace s @ [Rx_read n, Call_pcmout b, Done_read n Eof, Emit_pcmout]\<rparr>"
  | (r_dry) n b e1 where
      "l = Read_ev n" "stack s = []" "blockin s"
      "vorbis_synthesis_pcmout bnd (engine s) = (b, e1)" "is_zero b" "\<not> gotEos s"
      "s' = s\<lparr>engine := e1, blockin := False, on_blockin := on_blockin s @ [(next_id s, n)],
           next_id := Suc (next_id s), stack := map (\<lambda>(i, p). Fire_pcmout i p) (on_pcmout s),
           trace := trace s @ [Rx_read n, Call_pcmout b, Emit_pcmout]\<rparr>"
  | (r_neg) n b e1 where
      "l = Read_ev n" "stack s = []" "blockin s"
      "vorbis_synthesis_pcmout bnd (engine s) = (b, e1)" "\<not> is_zero b" "is_negative b"
      "s' = s\<lparr>engine := e1,
           trace := trace s @ [Rx_read n, Call_pcmout b,
             Done_read n (Failure (Pcmout_failed (number_of b)))]\<rparr>"
  | (r_chunk) n b e1 where
      "l = Read_ev n" "stack s = []" "blockin s"
      "vorbis_synthesis_pcmout bnd (engine s) = (b, e1)" "\<not> is_zero b" "\<not> is_negative b"
      "s' = s\<lparr>engine := e1, trace := trace s @ [Rx_read n, Call_pcmout b, Done_read n (Chunk b)]\<rparr>"
  | (b_stale) i n ws where
      "l = Tau" "stack s = Fire_blockin i n # ws" "(i, n) \<notin> set (on_blockin s)"
      "s' = s\<lparr>stack := ws\<rparr>"
  | (b_wait) i n ws where
      "l = Tau" "stack s = Fire_blockin i n # ws" "(i, n) \<in> set (on_blockin s)" "\<not> blockin s"
      "s' = s\<lparr>stack := ws, on_blockin := removeAll (i, n) (on_blockin s) @ [(next_id s, n)],
           next_id := Suc (next_id s)\<rparr>"
  | (b_eof) i n ws b e1 where
      "l = Tau" "stack s = Fire_blockin i n # ws" "(i, n) \<in> set (on_blockin s)" "blockin s"
      "vorbis_synthesis_pcmout bnd (engine s) = (b, e1)" "is_zero b" "gotEos s"
      "s' = s\<lparr>on_blockin := removeAll (i, n) (on_blockin s), engine := e1, blockin := False,
           stack := map (\<lambda>(i, p). Fire_pcmout i p) (on_pcmout s) @ ws,
           trace := trace s @ [Call_pcmout b, Done_read n Eof, Emit_pcmout]\<rparr>"
  | (b_dry) i n ws b e1 where
      "l = Tau" "stack s = Fire_blockin i n # ws" "(i, n) \<in> set (on_blockin s)" "blockin s"
      "vorbis_synthesis_pcmout bnd (engine s) = (b, e1)" "is_zero b" "\<not> gotEos s"
      "s' = s\<lparr>engine := e1, blockin := False,
           on_blockin := removeAll (i, n) (on_blockin s) @ [(next_id s, n)],
           next_id := Suc (next_id s),
           stack := map (\<lambda>(i, p). Fire_pcmout i p) (on_pcmout s) @ ws,
           trace := trace s @ [Call_pcmout b, Emit_pcmout]\<rparr>"
  | (b_neg) i n ws b e1 where
      "l = Tau" "stack s = Fire_blockin i n # ws" "(i, n) \<in> set (on_blockin s)" "blockin s"
      "vorbis_synthesis_pcmout bnd (engine s) = (b, e1)" "\<not> is_zero b" "is_negative b"
      "s' = s\<lparr>stack := ws, on_blockin := removeAll (i, n) (on_blockin s), engine := e1,
           trace := trace s @ [Call_pcmout b,
             Done_read n (Failure (Pcmout_failed (number_of b)))]\<rparr>"
  | (b_chunk) i n ws b e1 where
      "l = Tau" "stack s = Fire_blockin i n # ws" "(i, n) \<in> set (on_blockin s)" "blockin s"
      "vorbis_synthesis_pcmout bnd (engine s) = (b, e1)" "\<not> is_zero b" "\<not> is_negative b"
      "s' = s\<lparr>stack := ws, on_blockin := removeAll (i, n) (on_blockin s), engine := e1,
           trace := trace s @ [Call_pcmout b, Done_read n (Chunk b)]\<rparr>"
  | (tick) p ws where "l = Tau" "stack s = Tick p # ws"
      "s' = s\<lparr>stack := ws, trace := trace s @ [Next_tick p]\<rparr>"
proof (cases l)
  case (Packet_ev p)
  from assms Packet_ev have st: "stack s = []"
    by (auto simp: step_def split: if_splits)
  show thesis
  proof (cases "stream_attached s")
    case False
    with assms Packet_ev st show thesis
      by (intro dropped [of p]) (simp_all add: step_def)
  next
    case True
    with assms Packet_ev st have eq: "s' = unwind (packetin bnd p (log [Rx_packet p] s))"
      by (simp add: step_def)
    show thesis
    proof (cases rule: packetin_cases [of "log [Rx_packet p] s" bnd p])
      case hdr
      with Packet_ev st True eq show thesis
        by (intro p_hdr [of p]) (simp_all add: log_def)
    next
      case park
      with Packet_ev st True eq show thesis
        by (intro p_park [of p]) (simp_all add: log_def)
    next
      case (sfail r e1)
      with Packet_ev st True eq show thesis
        by (intro p_sfail [of p r e1]) (simp_all add: log_def)
    next
      case (sthrow r e1)
      with Packet_ev st True eq show thesis
        by (intro p_sthrow [of p r e1]) (simp_all add: log_def)
    next
      case (afail e1 r2 e2)
      with Packet_ev st True eq show thesis
        by (intro p_afail [of p e1 r2 e2]) (simp_all add: log_def)
    next
      case (athrow e1 r2 e2)
      with Packet_ev st True eq show thesis
        by (intro p_athrow [of p e1 r2 e2]) (simp_all add: log_def)
    next
      case (ok e1 e2)
      with Packet_ev st True eq show thesis
        by (intro p_ok [of p e1 e2]) (simp_all add: log_def)
    qed
  qed
next
  case Headerin_cb
  with assms obtain p ps where pend: "headerin_pending s = p # ps" and st: "stack s = []"
    and eq: "s' = headerin_cb bnd p (s\<lparr>headerin_pending := ps\<rparr>)"
    by (auto simp: step_def split: list.splits if_splits)
  show thesis
  proof (cases rule: headerin_cb_cases [of bnd "s\<lparr>headerin_pending := ps\<rparr>" p])
      case (fail r e1)
      with Headerin_cb pend st eq show thesis
        by (intro h_fail [of p ps r e1]) simp_all
    next
      case (more e1)
      with Headerin_cb pend st eq show thesis
        by (intro h_more [of p ps e1]) simp_all
    next
      case (init1 e1 r1 e2)
      with Headerin_cb pend st eq show thesis
        by (intro h_init1 [of p ps e1 r1 e2]) simp_all
    next
      case (init2 e1 e2 r2 e3)
      with Headerin_cb pend st eq show thesis
        by (intro h_init2 [of p ps e1 e2 r2 e3]) simp_all
    next
      case (ready e1 e2 e3)
      with Headerin_cb pend st eq show thesis
        by (intro h_ready [of p ps e1 e2 e3]) simp_all
  qed
next
  case (Read_ev n)
  with assms have st: "stack s = []" and eq: "s' = read' bnd n (log [Rx_read n] s)"
    by (auto simp: step_def split: if_splits)
  show thesis
  proof (cases rule: read_cases [of "log [Rx_read n] s" bnd n])
      case wait
      with Read_ev st eq show thesis
        by (intro r_wait [of n]) (simp_all add: log_def)
    next
      case (eof b e1)
      with Read_ev st eq show thesis
        by (intro r_eof [of n b e1]) (simp_all add: log_def)
    next
      case (dry b e1)
      with Read_ev st eq show thesis
        by (intro r_dry [of n b e1]) (simp_all add: log_def)
    next
      case (neg b e1)
      with Read_ev st eq show thesis
        by (intro r_neg [of n b e1]) (simp_all add: log_def)
    next
      case (chunk b e1)
      with Read_ev st eq show thesis
        by (intro r_chunk [of n b e1]) (simp_all add: log_def)
  qed
next
  case Tau
  with assms obtain w ws where st: "stack s = w # ws"
    and eq: "s' = run_work bnd w (s\<lparr>stack := ws\<rparr>)"
    by (auto simp: step_def split: list.splits)
  show thesis
  proof (cases w)
    case (Fire_pcmout i p)
    show thesis
    proof (cases "(i, p) \<in> set (on_pcmout s)")
      case False
      with Tau st eq Fire_pcmout show thesis
        by (intro f_stale [of i p ws]) (simp_all add: run_work_def)
    next
      case True
      with eq Fire_pcmout
      have eq': "s' = unwind (packetin bnd p
                   (s\<lparr>stack := ws, on_pcmout := removeAll (i, p) (on_pcmout s)\<rparr>))"
        by (simp add: run_work_def)
      from st Fire_pcmout have st': "stack s = Fire_pcmout i p # ws"
        by simp
      show thesis
      proof (cases rule: packetin_cases [of "s\<lparr>stack := ws, on_pcmout := removeAll (i, p) (on_pcmout s)\<rparr>" bnd p])
        case hdr
        with Tau st' True eq' show thesis
          by (intro f_hdr [of i p ws]) (simp_all add: log_def)
      next
        case park
        with Tau st' True eq' show thesis
          by (intro f_park [of i p ws]) (simp_all add: log_def)
      next
        case (sfail r e1)
        with Tau st' True eq' show thesis
          by (intro f_sfail [of i p ws r e1]) (simp_all add: log_def)
      next
        case (sthrow r e1)
        with Tau st' True eq' show thesis
          by (intro f_sthrow [of i p ws r e1]) (simp_all add: log_def)
      next
        case (afail e1 r2 e2)
        with Tau st' True eq' show thesis
          by (intro f_afail [of i p ws e1 r2 e2]) (simp_all add: log_def)
      next
        case (athrow e1 r2 e2)
        with Tau st' True eq' show thesis
          by (intro f_athrow [of i p ws e1 r2 e2]) (simp_all add: log_def)
      next
        case (ok e1 e2)
        with Tau st' True eq' show thesis
          by (intro f_ok [of i p ws e1 e2]) (simp_all add: log_def)
      qed
    qed
  next
    case (Fire_blockin i n)
    show thesis
    proof (cases "(i, n) \<in> set (on_blockin s)")
      case False
      with Tau st eq Fire_blockin show thesis
        by (intro b_stale [of i n ws]) (simp_all add: run_work_def)
    next
      case True
      with eq Fire_blockin
      have eq': "s' = read' bnd n
                   (s\<lparr>stack := ws, on_blockin := removeAll (i, n) (on_blockin s)\<rparr>)"
        by (simp add: run_work_def)
      from st Fire_blockin have st': "stack s = Fire_blockin i n # ws"
        by simp
      show thesis
      proof (cases rule: read_cases [of "s\<lparr>stack := ws, on_blockin := removeAll (i, n) (on_blockin s)\<rparr>" bnd n])
        case wait
        with Tau st' True eq' show thesis
          by (intro b_wait [of i n ws]) (simp_all add: log_def)
      next
        case (eof b e1)
        with Tau st' True eq' show thesis
          by (intro b_eof [of i n ws b e1]) (simp_all add: log_def)
      next
        case (dry b e1)
        with Tau st' True eq' show thesis
          by (intro b_dry [of i n ws b e1]) (simp_all add: log_def)
      next
        case (neg b e1)
        with Tau st' True eq' show thesis
          by (intro b_neg [of i n ws b e1]) (simp_all add: log_def)
      next
        case (chunk b e1)
        with Tau st' True eq' show thesis
          by (intro b_chunk [of i n ws b e1]) (simp_all add: log_def)
      qed
    qed
  next
    case (Tick p)
    with Tau st eq show thesis
      by (intro tick [of p ws]) (simp_all add: run_work_def log_def)
  qed
qed

lemma run_with_invariant:
  assumes "run_with ok bnd ls s = Some s'" and "I s"
    and "\<And>s l s'. I s \<Longrightarrow> ok s l \<Longrightarrow> step bnd l s = Some s' \<Longrightarrow> I s'"
  shows "I s'"
  using assms(1,2)
proof (induction ls arbitrary: s)
  case Nil
  then show ?case by simp
next
  case (Cons l ls)
  then show ?case
    by (auto split: if_splits option.splits intro: assms(3))
qed

lemma filter_tick_map_blockin [simp]:
  "filter is_tick (map (\<lambda>(i, n). Fire_blockin i n) xs) = []"
  by (induction xs) auto

lemma filter_tick_map_pcmout [simp]:
  "filter is_tick (map (\<lambda>(i, p). Fire_pcmout i p) xs) = []"
  by (induction xs) auto

lemma removeAll_short:
  "x \<in> set xs \<Longrightarrow> length xs \<le> 1 \<Longrightarrow> removeAll x xs = []"
  by (cases xs) auto

lemma in_set_length: "x \<in> set xs \<Longrightarrow> \<exists>n. length xs = Suc n"
  by (cases xs) auto

lemma short_nil: "Suc (c + length ps) \<le> n \<Longrightarrow> n \<le> Suc c \<Longrightarrow> ps = []"
  by (cases ps) auto

lemma serial_inv_step:
  assumes "step bnd l s = Some s'" and "serial_inv s" and "serial s l"
  shows "serial_inv s'"
  using assms
  by (cases rule: step_cases)
     (auto simp: serial_inv_def pend_def submitted_def completed_def serial_def
           removeAll_short dest!: in_set_length intro: short_nil)


lemma read_results_append [simp]:
  "read_results (xs @ ys) = read_results xs @ read_results ys"
  by (induction xs rule: read_results.induct) auto

lemma count_inv_step:
  assumes "step bnd l s = Some s'" and "serial_inv s" and "count_inv s"
  shows "count_inv s'"
  using assms
  by (cases rule: step_cases)
     (auto simp: serial_inv_def count_inv_def synthesis_calls_def zero_extracts_def)

lemma error_inv_step:
  assumes "step bnd l s = Some s'" and "serial_inv s" and "error_inv s"
  shows "error_inv s'"
  using assms
  by (cases rule: step_cases)
     (auto simp: serial_inv_def error_inv_def errors_raised_def listener_removals_def
        decode_failed_def)

lemma header_inv_step:
  assumes "step bnd l s = Some s'" and "serial_inv s" and "header_inv s"
  shows "header_inv s'"
  using assms
  by (cases rule: step_cases)
     (auto simp: serial_inv_def header_inv_def headers_ok_def)

lemma notice_inv_step:
  assumes "step bnd l s = Some s'" and "notice_inv s"
  shows "notice_inv s'"
  using assms
  by (cases rule: step_cases)
     (auto simp: notice_inv_def notices_and_chunks_def)


lemma serial_inv_parked:
  assumes "serial_inv s"
  shows "x \<in> set (on_pcmout s) \<longleftrightarrow> on_pcmout s = [x]"
proof -
  from assms have "length (on_pcmout s) \<le> 1"
    by (simp add: serial_inv_def pend_def)
  then show ?thesis
    by (cases "on_pcmout s") auto
qed

lemma serial_inv_idle:
  assumes "serial_inv s" and "submitted (trace s) = completed (trace s)"
  shows "on_pcmout s = []"
  using assms by (simp add: serial_inv_def pend_def)

lemma eos_inv_step:
  assumes "step bnd l s = Some s'" and "serial_inv s" and "eos_inv s" and "well_behaved s l"
  shows "eos_inv s'"
proof -
  note mem = serial_inv_parked [OF assms(2)]
  have idle: "submitted (trace s) = completed (trace s) \<Longrightarrow> on_pcmout s = []"
    using assms(2) by (rule serial_inv_idle)
  have att: "stream_attached s = stream_ref s"
    using assms(2) by (simp add: serial_inv_def)
  from assms(1) show ?thesis
    by (cases rule: step_cases)
       (use assms(3,4) idle att in
         \<open>auto simp: mem eos_inv_def well_behaved_def serial_def eos_submitted_def\<close>)
qed


lemma fresh_append [simp]:
  "trace s' = trace s @ evs \<Longrightarrow> fresh s s' = evs"
  by (simp add: fresh_def)

lemma fresh_same [simp]: "fresh s s = []"
  by (simp add: fresh_def)

lemma serial_inv_Decoder: "serial_inv (Decoder e)"
  by (simp add: serial_inv_def Decoder_def pend_def submitted_def completed_def)

lemma count_inv_Decoder: "count_inv (Decoder e)"
  by (simp add: count_inv_def Decoder_def synthesis_calls_def zero_extracts_def)

lemma error_inv_Decoder: "error_inv (Decoder e)"
  by (simp add: error_inv_def Decoder_def errors_raised_def listener_removals_def
        decode_failed_def)

lemma header_inv_Decoder: "header_inv (Decoder e)"
  by (simp add: header_inv_def Decoder_def headers_ok_def)

lemma notice_inv_Decoder: "notice_inv (Decoder e)"
  by (simp add: notice_inv_def Decoder_def notices_and_chunks_def)

lemma eos_inv_Decoder: "eos_inv (Decoder e)"
  by (simp add: eos_inv_def Decoder_def)

lemma well_behaved_serial: "well_behaved s l \<Longrightarrow> serial s l"
  by (simp add: well_behaved_def)

lemma reach_serial:
  assumes "run_with serial bnd ls (Decoder e) = Some s"
  shows "serial_inv s \<and> count_inv s \<and> error_inv s \<and> header_inv s"
  using assms
proof (rule run_with_invariant)
  show "serial_inv (Decoder e) \<and> count_inv (Decoder e) \<and> error_inv (Decoder e)
          \<and> header_inv (Decoder e)"
    by (simp add: serial_inv_Decoder count_inv_Decoder error_inv_Decoder header_inv_Decoder)
next
  fix s l s'
  assume "serial_inv s \<and> count_inv s \<and> error_inv s \<and> header_inv s" "serial s l"
    "step bnd l s = Some s'"
  then show "serial_inv s' \<and> count_inv s' \<and> error_inv s' \<and> header_inv s'"
    by (simp add: serial_inv_step count_inv_step error_inv_step header_inv_step)
qed

lemma reach_well_behaved:
  assumes "run_with well_behaved bnd ls (Decoder e) = Some s"
  shows "serial_inv s \<and> eos_inv s"
  using assms
proof (rule run_with_invariant)
  show "serial_inv (Decoder e) \<and> eos_inv (Decoder e)"
    by (simp add: serial_inv_Decoder eos_inv_Decoder)
next
  fix s l s'
  assume "serial_inv s \<and> eos_inv s" "well_behaved s l" "step bnd l s = Some s'"
  then show "serial_inv s' \<and> eos_inv s'"
    by (simp add: serial_inv_step eos_inv_step well_behaved_serial)
qed

lemma reach_any:
  assumes "run_with ok bnd ls (Decoder e) = Some s"
  shows "notice_inv s"
  using assms
proof (rule run_with_invariant)
  show "notice_inv (Decoder e)"
    by (rule notice_inv_Decoder)
next
  fix s l s'
  assume "notice_inv s" "step bnd l s = Some s'"
  then show "notice_inv s'"
    by (simp add: notice_inv_step)
qed

lemma torn_down_step:
  assumes "step bnd l s = Some s'" and "serial_inv s" and "\<not> stream_ref s"
  shows "session s' = session s \<and> submitted (trace s') = submitted (trace s) \<and>
         synthesis_calls (trace s') = synthesis_calls (trace s)"
  using assms
  by (cases rule: step_cases)
     (auto simp: serial_inv_def session_def submitted_def synthesis_calls_def)

lemma read_inv_Decoder: "read_inv (Decoder e)"
  by (simp add: read_inv_def Decoder_def reads_started_def reads_answered_def ended_def)

lemma read_inv_step:
  assumes "step bnd l s = Some s'" and "read_inv s" and "readable s l"
  shows "read_inv s'"
  using assms
  by (cases rule: step_cases)
     (auto simp: read_inv_def readable_def reading_def ended_def reads_started_def
           reads_answered_def removeAll_short dest!: in_set_length intro: short_nil)

lemma ended_step:
  assumes "step bnd l s = Some s'" and "read_inv s" and "ended (trace s)" and "readable s l"
  shows "read_results (trace s') = read_results (trace s) \<and>
         reads_started (trace s') = reads_started (trace s)"
  using assms
  by (cases rule: step_cases)
     (auto simp: read_inv_def readable_def reading_def ended_def reads_started_def
           reads_answered_def)

lemma reach_readable:
  assumes "run_with readable bnd ls (Decoder e) = Some s"
  shows "read_inv s"
  using assms
proof (rule run_with_invariant)
  show "read_inv (Decoder e)"
    by (rule read_inv_Decoder)
next
  fix s l s'
  assume "read_inv s" "readable s l" "step bnd l s = Some s'"
  then show "read_inv s'"
    by (simp add: read_inv_step)
qed

text \<open>The defining equations of the model, for running the examples.\<close>

lemmas run_defs =
  Decoder_def log_def once_pcmout_def once_blockin_def emit_blockin_def emit_pcmout_def
  error'_def synthesis_init_def headerin_cb_def packetin_def is_zero_def is_negative_def
  number_of_def read'_def unwind_def run_work_def step_def submitted_def completed_def
  eos_submitted_def serial_def well_behaved_def fresh_def next_status_def next_pcm_def
  scripted_def play_def three_headers_def setup_ok_def Let_def

section \<open>The claims\<close>

subsection \<open>C1: a packet waits until the block is drained\<close>

text \<open>
  C1.  In every execution in which the Packet Source waits for the completion of a packet
  before it sends the next: the engine's block-submit step (\<open>vorbis_synthesis\<close>) has been
  called at most once more than \<open>vorbis_synthesis_pcmout\<close> has returned 0.  A packet that
  arrives while \<open>_blockin\<close> is true is not handed to the engine: \<open>packetin\<close> only registers
  it for 'pcmout'.  When an extraction then returns 0, 'pcmout' is emitted, the pending
  call is that same packet, and running it passes the packet to \<open>vorbis_synthesis\<close>.
\<close>

theorem packet_waits_for_drained_block:
  assumes "run_with serial bnd ls (Decoder e) = Some s"
  shows "synthesis_calls (trace s) \<le> zero_extracts (trace s) + 1 \<and>
         (\<forall>p. blockin s \<and> stack s = [] \<and> stream_attached s \<longrightarrow>
            step bnd (Packet_ev p) s = Some (once_pcmout p (log [Rx_packet p] s))) \<and>
         (\<forall>i p n. blockin s \<and> stack s = [] \<and> (i, p) \<in> set (on_pcmout s) \<and>
                  is_zero (fst (vorbis_synthesis_pcmout bnd (engine s))) \<longrightarrow>
            (\<exists>s1 s2 r evs. step bnd (Read_ev n) s = Some s1 \<and> stack s1 = [Fire_pcmout i p] \<and>
               step bnd Tau s1 = Some s2 \<and> fresh s1 s2 = Call_synthesis p r # evs))"
proof -
  from assms have inv: "serial_inv s" and cnt: "count_inv s"
    by (simp_all add: reach_serial)
  from cnt have "synthesis_calls (trace s) \<le> zero_extracts (trace s) + 1"
    by (simp add: count_inv_def split: if_splits)
  moreover have "step bnd (Packet_ev p) s = Some (once_pcmout p (log [Rx_packet p] s))"
    if "blockin s" "stack s = []" "stream_attached s" for p
    using that inv by (auto simp: serial_inv_def step_def packetin_def unwind_def log_def)
  moreover have "\<exists>s1 s2 r evs. step bnd (Read_ev n) s = Some s1 \<and> stack s1 = [Fire_pcmout i p] \<and>
               step bnd Tau s1 = Some s2 \<and> fresh s1 s2 = Call_synthesis p r # evs"
    if blk: "blockin s" and st: "stack s = []" and mem: "(i, p) \<in> set (on_pcmout s)"
      and zero: "is_zero (fst (vorbis_synthesis_pcmout bnd (engine s)))" for i p n
  proof -
    from mem inv have one: "on_pcmout s = [(i, p)]"
      by (simp add: serial_inv_parked)
    from blk inv have hc: "\<not> headerCount s > 0"
      by (auto simp: serial_inv_def)
    define s1 where "s1 = read' bnd n (log [Rx_read n] s)"
    have st1: "step bnd (Read_ev n) s = Some s1"
      using st by (simp add: step_def s1_def)
    have props: "stack s1 = [Fire_pcmout i p] \<and> \<not> blockin s1 \<and> on_pcmout s1 = [(i, p)] \<and>
                 headerCount s1 = headerCount s"
      unfolding s1_def using blk st one zero
      by (cases rule: read_cases [of "log [Rx_read n] s" bnd n]) (auto simp: log_def)
    define s2 where "s2 = unwind (packetin bnd p (s1\<lparr>stack := [], on_pcmout := []\<rparr>))"
    have st2: "step bnd Tau s1 = Some s2"
      using props by (simp add: step_def run_work_def s2_def)
    have "\<exists>r evs. fresh s1 s2 = Call_synthesis p r # evs"
      unfolding s2_def using props hc
      by (cases rule: packetin_cases [of "s1\<lparr>stack := [], on_pcmout := []\<rparr>" bnd p])
         (auto simp: fresh_def)
    with st1 st2 props show ?thesis
      by blast
  qed
  ultimately show ?thesis
    by blast
qed

text \<open>
  The second packet of the example arrives while the block of the first is there: it is
  parked, and after the extraction that returns 0 it is the packet that is synthesised.
\<close>

theorem packet_waits_for_drained_block_witness:
  "run_with serial scripted block_ready (Decoder setup_ok) = Some block_ready_then_dry \<and>
   blockin block_ready_then_dry \<and> stack block_ready_then_dry = [] \<and>
   stream_attached block_ready_then_dry \<and>
   serial block_ready_then_dry (Packet_ev (Packet 4 False)) \<and>
   step scripted (Packet_ev (Packet 4 False)) block_ready_then_dry =
     Some (once_pcmout (Packet 4 False) (log [Rx_packet (Packet 4 False)] block_ready_then_dry)) \<and>
   run_with serial scripted second_packet_arrives (Decoder setup_ok)
     = Some second_packet_parked \<and>
   synthesis_calls (trace second_packet_parked) \<le> zero_extracts (trace second_packet_parked) + 1 \<and>
   blockin second_packet_parked \<and> stack second_packet_parked = [] \<and>
   on_pcmout second_packet_parked = [(0, Packet 4 False)] \<and>
   is_zero (fst (vorbis_synthesis_pcmout scripted (engine second_packet_parked))) \<and>
   stack (the (step scripted (Read_ev 4096) second_packet_parked))
     = [Fire_pcmout 0 (Packet 4 False)] \<and>
   fresh (the (step scripted (Read_ev 4096) second_packet_parked))
         (the (step scripted Tau (the (step scripted (Read_ev 4096) second_packet_parked))))
     = [Call_synthesis (Packet 4 False) 0, Call_blockin 0, Emit_blockin]"
proof -
  have run1: "run_with serial scripted block_ready (Decoder setup_ok)
                = Some block_ready_then_dry"
    by (simp add: run_defs block_ready_def block_ready_then_dry_def)
  have a: "blockin block_ready_then_dry" "stack block_ready_then_dry = []"
    "stream_attached block_ready_then_dry"
    "serial block_ready_then_dry (Packet_ev (Packet 4 False))"
    by (simp_all add: run_defs block_ready_def block_ready_then_dry_def)
  from packet_waits_for_drained_block [OF run1] a
  have b: "step scripted (Packet_ev (Packet 4 False)) block_ready_then_dry =
     Some (once_pcmout (Packet 4 False) (log [Rx_packet (Packet 4 False)] block_ready_then_dry))"
    by blast
  have run2: "run_with serial scripted second_packet_arrives (Decoder setup_ok)
               = Some second_packet_parked"
    by (simp add: run_defs second_packet_arrives_def second_packet_parked_def)
  have c: "blockin second_packet_parked" "stack second_packet_parked = []"
    "on_pcmout second_packet_parked = [(0, Packet 4 False)]"
    "is_zero (fst (vorbis_synthesis_pcmout scripted (engine second_packet_parked)))"
    by (simp_all add: run_defs second_packet_arrives_def second_packet_parked_def)
  from packet_waits_for_drained_block [OF run2]
  have d: "synthesis_calls (trace second_packet_parked)
             \<le> zero_extracts (trace second_packet_parked) + 1"
    by blast
  have e: "stack (the (step scripted (Read_ev 4096) second_packet_parked))
             = [Fire_pcmout 0 (Packet 4 False)]"
    "fresh (the (step scripted (Read_ev 4096) second_packet_parked))
         (the (step scripted Tau (the (step scripted (Read_ev 4096) second_packet_parked))))
     = [Call_synthesis (Packet 4 False) 0, Call_blockin 0, Emit_blockin]"
    by (simp_all add: run_defs second_packet_arrives_def second_packet_parked_def)
  show ?thesis
    by (intro conjI) (fact run1 a b run2 c d e)+
qed

subsection \<open>C2: three accepted header packets, then audio\<close>

text \<open>
  C2 (as amended).  In every execution in which the Packet Source waits for the
  completion of a packet before it sends the next: the header counter is 3 minus the
  number of header packets the engine has accepted and never negative, so exactly three
  accepted packets are consumed as header packets (a rejected one leaves the counter
  where it is).  While the counter is greater than 0 no engine call of the audio phase
  has been made and no read has been answered, and an arriving packet is passed to
  \<open>vorbis_synthesis_headerin\<close>.  Once the counter is 0 it stays 0, no step passes a packet
  to \<open>vorbis_synthesis_headerin\<close>, and an arriving packet is treated as audio: parked when
  a block is there, passed to \<open>vorbis_synthesis\<close> otherwise.
\<close>

theorem three_accepted_headers_then_audio:
  assumes "run_with serial bnd ls (Decoder e) = Some s"
  shows "headerCount s = 3 - int (headers_ok (trace s)) \<and> 0 \<le> headerCount s \<and>
         (headerCount s > 0 \<longrightarrow>
            filter is_audio (trace s) = [] \<and>
            (\<forall>p. stack s = [] \<and> stream_attached s \<longrightarrow>
               step bnd (Packet_ev p) s =
                 Some (s\<lparr>headerin_pending := headerin_pending s @ [p],
                          trace := trace s @ [Rx_packet p, Call_headerin p]\<rparr>))) \<and>
         (headerCount s = 0 \<longrightarrow>
            (\<forall>l s'. step bnd l s = Some s' \<longrightarrow>
               headerCount s' = 0 \<and> filter is_headerin (fresh s s') = []) \<and>
            (\<forall>p s'. step bnd (Packet_ev p) s = Some s' \<and> stream_attached s \<longrightarrow>
               (blockin s \<and> s' = once_pcmout p (log [Rx_packet p] s)) \<or>
               (\<not> blockin s \<and> (\<exists>r evs. fresh s s' = Rx_packet p # Call_synthesis p r # evs))))"
proof -
  from assms have inv: "serial_inv s" and hdr: "header_inv s"
    by (simp_all add: reach_serial)
  have a: "step bnd (Packet_ev p) s =
             Some (s\<lparr>headerin_pending := headerin_pending s @ [p],
                      trace := trace s @ [Rx_packet p, Call_headerin p]\<rparr>)"
    if "headerCount s > 0" "stack s = []" "stream_attached s" for p
    using that by (simp add: step_def packetin_def unwind_def log_def)
  have b: "headerCount s' = 0 \<and> filter is_headerin (fresh s s') = []"
    if "headerCount s = 0" "step bnd l s = Some s'" for l s'
    using that(2,1) inv by (cases rule: step_cases) (auto simp: serial_inv_def)
  have c: "(blockin s \<and> s' = once_pcmout p (log [Rx_packet p] s)) \<or>
           (\<not> blockin s \<and> (\<exists>r evs. fresh s s' = Rx_packet p # Call_synthesis p r # evs))"
    if "headerCount s = 0" "step bnd (Packet_ev p) s = Some s'" "stream_attached s" for p s'
    using that(2,1,3) by (cases rule: step_cases) (auto simp: once_pcmout_def log_def)
  from hdr have h: "headerCount s = 3 - int (headers_ok (trace s))" "0 \<le> headerCount s"
    "headerCount s > 0 \<longrightarrow> filter is_audio (trace s) = []"
    by (simp_all add: header_inv_def)
  from h a b c show ?thesis
    by blast
qed

text \<open>
  After one accepted header the next packet is a header packet; after three accepted
  headers the next packet is synthesised.
\<close>

theorem three_accepted_headers_then_audio_witness:
  "run_with serial scripted [Packet_ev (Packet 0 False), Headerin_cb] (Decoder setup_ok)
     = Some one_header_done \<and>
   headerCount one_header_done = 3 - int (headers_ok (trace one_header_done)) \<and>
   headerCount one_header_done = 2 \<and> stack one_header_done = [] \<and>
   stream_attached one_header_done \<and> filter is_audio (trace one_header_done) = [] \<and>
   step scripted (Packet_ev (Packet 1 False)) one_header_done =
     Some (one_header_done
             \<lparr>headerin_pending := headerin_pending one_header_done @ [Packet 1 False],
              trace := trace one_header_done @
                [Rx_packet (Packet 1 False), Call_headerin (Packet 1 False)]\<rparr>) \<and>
   run_with serial scripted three_headers (Decoder setup_ok) = Some headers_done \<and>
   headerCount headers_done = 0 \<and> headers_ok (trace headers_done) = 3 \<and>
   stream_attached headers_done \<and> \<not> blockin headers_done \<and>
   headerCount (the (step scripted (Packet_ev (Packet 3 False)) headers_done)) = 0 \<and>
   fresh headers_done (the (step scripted (Packet_ev (Packet 3 False)) headers_done)) =
     [Rx_packet (Packet 3 False), Call_synthesis (Packet 3 False) 0, Call_blockin 0,
      Emit_blockin]"
proof -
  have run1: "run_with serial scripted [Packet_ev (Packet 0 False), Headerin_cb]
                (Decoder setup_ok) = Some one_header_done"
    by (simp add: run_defs headers_ok_def one_header_done_def headers_done_def
          second_header_rejected_def)
  have a: "headerCount one_header_done = 2" "stack one_header_done = []"
    "stream_attached one_header_done"
    by (simp_all add: run_defs headers_ok_def one_header_done_def headers_done_def
          second_header_rejected_def)
  from three_accepted_headers_then_audio [OF run1] a
  have b: "headerCount one_header_done = 3 - int (headers_ok (trace one_header_done))"
    and c: "filter is_audio (trace one_header_done) = []"
    and d: "step scripted (Packet_ev (Packet 1 False)) one_header_done =
     Some (one_header_done
             \<lparr>headerin_pending := headerin_pending one_header_done @ [Packet 1 False],
              trace := trace one_header_done @
                [Rx_packet (Packet 1 False), Call_headerin (Packet 1 False)]\<rparr>)"
    by simp_all
  have run2: "run_with serial scripted three_headers (Decoder setup_ok) = Some headers_done"
    by (simp add: run_defs headers_ok_def one_header_done_def headers_done_def
          second_header_rejected_def)
  have e: "headerCount headers_done = 0" "headers_ok (trace headers_done) = 3"
    "stream_attached headers_done" "\<not> blockin headers_done"
    by (simp_all add: run_defs headers_ok_def one_header_done_def headers_done_def
          second_header_rejected_def)
  have f: "step scripted (Packet_ev (Packet 3 False)) headers_done
             = Some (the (step scripted (Packet_ev (Packet 3 False)) headers_done))"
    by (simp add: run_defs headers_ok_def one_header_done_def headers_done_def
          second_header_rejected_def)
  from three_accepted_headers_then_audio [OF run2] e(1) f
  have g: "headerCount (the (step scripted (Packet_ev (Packet 3 False)) headers_done)) = 0"
    by blast
  have h: "fresh headers_done (the (step scripted (Packet_ev (Packet 3 False)) headers_done)) =
     [Rx_packet (Packet 3 False), Call_synthesis (Packet 3 False) 0, Call_blockin 0,
      Emit_blockin]"
    by (simp add: run_defs headers_ok_def one_header_done_def headers_done_def
          second_header_rejected_def)
  show ?thesis
    by (intro conjI) (fact run1 a b c d run2 e g h)+
qed

text \<open>
  The claim as stated fails when a header packet is rejected and the stream goes on: here
  the second of three packets is rejected (status -1), the counter is still 1 after
  three packets, and the fourth packet is passed to \<open>vorbis_synthesis_headerin\<close>.
\<close>

theorem fourth_packet_is_a_header_counterexample:
  "run_with well_behaved scripted three_headers (Decoder [Num 0, Num (- 1), Num 0])
     = Some second_header_rejected \<and>
   trace second_header_rejected =
     [Rx_packet (Packet 0 False), Call_headerin (Packet 0 False),
      Ret_headerin (Packet 0 False) 0, Done_packet (Packet 0 False) None,
      Rx_packet (Packet 1 False), Call_headerin (Packet 1 False),
      Ret_headerin (Packet 1 False) (- 1),
      Done_packet (Packet 1 False) (Some (Headerin_failed (- 1))),
      Rx_packet (Packet 2 False), Call_headerin (Packet 2 False),
      Ret_headerin (Packet 2 False) 0, Done_packet (Packet 2 False) None] \<and>
   headerCount second_header_rejected = 1 \<and>
   well_behaved second_header_rejected (Packet_ev (Packet 3 False)) \<and>
   fresh second_header_rejected
     (the (step scripted (Packet_ev (Packet 3 False)) second_header_rejected))
     = [Rx_packet (Packet 3 False), Call_headerin (Packet 3 False)]"
  by (simp add: run_defs headers_ok_def one_header_done_def headers_done_def
          second_header_rejected_def)

subsection \<open>C3: 'comments' and 'format'\<close>

text \<open>
  C3.  In every execution, whatever the environment does: while the header counter is
  greater than 0 neither notification has been emitted and no PCM chunk has been handed
  to the reader; once it is no longer greater than 0, 'comments' and 'format' have each
  been emitted exactly once, 'comments' first, and both before every PCM chunk.  A step
  that emits either of them is the header callback that takes the counter from 1 to 0,
  and it emits exactly 'comments' then 'format'.
\<close>

theorem notifications_once_in_order:
  assumes "run_with ok bnd ls (Decoder e) = Some s"
  shows "(headerCount s > 0 \<longrightarrow> notices_and_chunks (trace s) = []) \<and>
         (\<not> headerCount s > 0 \<longrightarrow>
            (\<exists>cs. notices_and_chunks (trace s) = Emit_comments # Emit_format # cs \<and>
                  (\<forall>c \<in> set cs. is_chunk c))) \<and>
         (\<forall>l s'. step bnd l s = Some s' \<and> notices (fresh s s') \<noteq> [] \<longrightarrow>
            l = Headerin_cb \<and> headerCount s = 1 \<and> headerCount s' = 0 \<and>
            notices (fresh s s') = [Emit_comments, Emit_format])"
proof -
  have "notice_inv s"
    using assms by (rule reach_any)
  moreover have "l = Headerin_cb \<and> headerCount s = 1 \<and> headerCount s' = 0 \<and>
            notices (fresh s s') = [Emit_comments, Emit_format]"
    if "step bnd l s = Some s'" and "notices (fresh s s') \<noteq> []" for l s'
    using that by (cases rule: step_cases) (auto simp: notices_def)
  ultimately show ?thesis
    unfolding notice_inv_def by blast
qed

text \<open>
  After one header nothing has been emitted; the callback of the third header emits the
  two notifications; after the first read they precede the chunk.
\<close>

theorem notifications_once_in_order_witness:
  "run_with any_env scripted [Packet_ev (Packet 0 False), Headerin_cb] (Decoder setup_ok)
     = Some one_header_done \<and>
   headerCount one_header_done > 0 \<and> notices_and_chunks (trace one_header_done) = [] \<and>
   run_with any_env scripted
     [Packet_ev (Packet 0 False), Headerin_cb, Packet_ev (Packet 1 False), Headerin_cb,
      Packet_ev (Packet 2 False)] (Decoder setup_ok) = Some awaiting_last_header \<and>
   step scripted Headerin_cb awaiting_last_header = Some headers_done \<and>
   notices (fresh awaiting_last_header headers_done) = [Emit_comments, Emit_format] \<and>
   headerCount awaiting_last_header = 1 \<and> headerCount headers_done = 0 \<and>
   run_with any_env scripted (last_packet_decoded @ [Read_ev 4096]) (Decoder last_packet_script)
     = Some last_chunk_read \<and>
   \<not> headerCount last_chunk_read > 0 \<and>
   notices_and_chunks (trace last_chunk_read) =
     [Emit_comments, Emit_format, Done_read 4096 (Chunk (Buf [1, 2, 3, 4]))]"
proof -
  have run1: "run_with any_env scripted [Packet_ev (Packet 0 False), Headerin_cb]
                (Decoder setup_ok) = Some one_header_done"
    by (simp add: run_defs any_env_def notices_def notices_and_chunks_def one_header_done_def
          awaiting_last_header_def headers_done_def last_packet_script_def
          last_packet_decoded_def last_chunk_read_def)
  have a: "headerCount one_header_done > 0"
    by (simp add: run_defs any_env_def notices_def notices_and_chunks_def one_header_done_def
          awaiting_last_header_def headers_done_def last_packet_script_def
          last_packet_decoded_def last_chunk_read_def)
  from notifications_once_in_order [OF run1] a
  have b: "notices_and_chunks (trace one_header_done) = []"
    by blast
  have run2: "run_with any_env scripted
     [Packet_ev (Packet 0 False), Headerin_cb, Packet_ev (Packet 1 False), Headerin_cb,
      Packet_ev (Packet 2 False)] (Decoder setup_ok) = Some awaiting_last_header"
    by (simp add: run_defs any_env_def notices_def notices_and_chunks_def one_header_done_def
          awaiting_last_header_def headers_done_def last_packet_script_def
          last_packet_decoded_def last_chunk_read_def)
  have c: "step scripted Headerin_cb awaiting_last_header = Some headers_done"
    "notices (fresh awaiting_last_header headers_done) = [Emit_comments, Emit_format]"
    by (simp_all add: run_defs any_env_def notices_def notices_and_chunks_def
          one_header_done_def awaiting_last_header_def headers_done_def last_packet_script_def
          last_packet_decoded_def last_chunk_read_def)
  from c(2) have "notices (fresh awaiting_last_header headers_done) \<noteq> []"
    by simp
  with notifications_once_in_order [OF run2] c(1)
  have d: "headerCount awaiting_last_header = 1 \<and> headerCount headers_done = 0"
    by blast
  have run3: "run_with any_env scripted (last_packet_decoded @ [Read_ev 4096])
                (Decoder last_packet_script) = Some last_chunk_read"
    by (simp add: run_defs any_env_def notices_def notices_and_chunks_def one_header_done_def
          awaiting_last_header_def headers_done_def last_packet_script_def
          last_packet_decoded_def last_chunk_read_def)
  have e: "\<not> headerCount last_chunk_read > 0"
    "notices_and_chunks (trace last_chunk_read) =
       [Emit_comments, Emit_format, Done_read 4096 (Chunk (Buf [1, 2, 3, 4]))]"
    by (simp_all add: run_defs any_env_def notices_def notices_and_chunks_def
          one_header_done_def awaiting_last_header_def headers_done_def last_packet_script_def
          last_packet_decoded_def last_chunk_read_def)
  from d have d1: "headerCount awaiting_last_header = 1" and d2: "headerCount headers_done = 0"
    by simp_all
  show ?thesis
    by (intro conjI) (fact run1 a b run2 c d1 d2 run3 e)+
qed

subsection \<open>C4: the end of the stream\<close>

text \<open>
  C4.  A step hands the end-of-stream result to a read exactly when in that step
  \<open>vorbis_synthesis_pcmout\<close> returns 0 while \<open>_gotEos\<close> is true.  When it returns 0 while
  \<open>_gotEos\<close> is false the read is answered nothing: it is registered for the next
  'blockin' and the block is marked as drained.  In every execution in which the Packet
  Source keeps its contract (one packet at a time, none after the packet with the
  end-of-stream mark), the end-of-stream result is the last result any read is given:
  every PCM chunk has been handed over before it.
\<close>

theorem eof_after_final_block_is_drained:
  assumes "run_with well_behaved bnd ls (Decoder e) = Some s"
  shows "(Eof \<in> set (read_results (trace s)) \<longrightarrow>
            (\<exists>cs. read_results (trace s) = cs @ [Eof] \<and> Eof \<notin> set cs)) \<and>
         (\<forall>l s'. step bnd l s = Some s' \<longrightarrow>
            (Eof \<in> set (read_results (fresh s s'))
               \<longleftrightarrow> gotEos s \<and> zero_extracts (fresh s s') \<noteq> 0) \<and>
            (\<not> gotEos s \<and> zero_extracts (fresh s s') \<noteq> 0 \<longrightarrow>
               read_results (fresh s s') = [] \<and> \<not> blockin s' \<and>
               (\<exists>n. (next_id s, n) \<in> set (on_blockin s'))))"
proof -
  from assms have eos: "eos_inv s"
    by (simp add: reach_well_behaved)
  have "(Eof \<in> set (read_results (fresh s s'))
               \<longleftrightarrow> gotEos s \<and> zero_extracts (fresh s s') \<noteq> 0) \<and>
            (\<not> gotEos s \<and> zero_extracts (fresh s s') \<noteq> 0 \<longrightarrow>
               read_results (fresh s s') = [] \<and> \<not> blockin s' \<and>
               (\<exists>n. (next_id s, n) \<in> set (on_blockin s')))"
    if "step bnd l s = Some s'" for l s'
    using that by (cases rule: step_cases) (auto simp: zero_extracts_def)
  with eos show ?thesis
    unfolding eos_inv_def by blast
qed

text \<open>
  The last packet of the example yields four bytes and then nothing: the second read is
  given the end of the stream, after the chunk.  Without the end-of-stream mark the read
  that finds the block empty waits.
\<close>

theorem eof_after_final_block_is_drained_witness:
  "run_with well_behaved scripted (last_packet_decoded @ [Read_ev 4096])
     (Decoder last_packet_script) = Some last_chunk_read \<and>
   gotEos last_chunk_read \<and>
   step scripted (Read_ev 4096) last_chunk_read = Some at_end_of_stream \<and>
   zero_extracts (fresh last_chunk_read at_end_of_stream) \<noteq> 0 \<and>
   Eof \<in> set (read_results (fresh last_chunk_read at_end_of_stream)) \<and>
   run_with well_behaved scripted stream_read_to_end (Decoder last_packet_script)
     = Some at_end_of_stream \<and>
   read_results (trace at_end_of_stream) = [Chunk (Buf [1, 2, 3, 4]), Eof] \<and>
   run_with well_behaved scripted block_ready (Decoder setup_ok)
     = Some block_ready_then_dry \<and>
   \<not> gotEos block_ready_then_dry \<and>
   zero_extracts (fresh block_ready_then_dry
       (the (step scripted (Read_ev 4096) block_ready_then_dry))) \<noteq> 0 \<and>
   read_results (fresh block_ready_then_dry
       (the (step scripted (Read_ev 4096) block_ready_then_dry))) = [] \<and>
   \<not> blockin (the (step scripted (Read_ev 4096) block_ready_then_dry)) \<and>
   on_blockin (the (step scripted (Read_ev 4096) block_ready_then_dry)) = [(0, 4096)]"
proof -
  have run1: "run_with well_behaved scripted (last_packet_decoded @ [Read_ev 4096])
     (Decoder last_packet_script) = Some last_chunk_read"
    by (simp add: run_defs zero_extracts_def last_packet_script_def last_packet_decoded_def
          last_chunk_read_def stream_read_to_end_def at_end_of_stream_def block_ready_def
          block_ready_then_dry_def)
  have a: "gotEos last_chunk_read"
    "step scripted (Read_ev 4096) last_chunk_read = Some at_end_of_stream"
    "zero_extracts (fresh last_chunk_read at_end_of_stream) \<noteq> 0"
    by (simp_all add: run_defs zero_extracts_def last_packet_script_def last_packet_decoded_def
          last_chunk_read_def stream_read_to_end_def at_end_of_stream_def block_ready_def
          block_ready_then_dry_def)
  from eof_after_final_block_is_drained [OF run1] a
  have b: "Eof \<in> set (read_results (fresh last_chunk_read at_end_of_stream))"
    by blast
  have run2: "run_with well_behaved scripted stream_read_to_end (Decoder last_packet_script)
     = Some at_end_of_stream"
    by (simp add: run_defs zero_extracts_def last_packet_script_def last_packet_decoded_def
          last_chunk_read_def stream_read_to_end_def at_end_of_stream_def block_ready_def
          block_ready_then_dry_def)
  have c: "read_results (trace at_end_of_stream) = [Chunk (Buf [1, 2, 3, 4]), Eof]"
    by (simp add: run_defs zero_extracts_def last_packet_script_def last_packet_decoded_def
          last_chunk_read_def stream_read_to_end_def at_end_of_stream_def block_ready_def
          block_ready_then_dry_def)
  have run4: "run_with well_behaved scripted block_ready (Decoder setup_ok)
     = Some block_ready_then_dry"
    by (simp add: run_defs zero_extracts_def last_packet_script_def last_packet_decoded_def
          last_chunk_read_def stream_read_to_end_def at_end_of_stream_def block_ready_def
          block_ready_then_dry_def)
  have e: "\<not> gotEos block_ready_then_dry"
    "step scripted (Read_ev 4096) block_ready_then_dry
       = Some (the (step scripted (Read_ev 4096) block_ready_then_dry))"
    "zero_extracts (fresh block_ready_then_dry
       (the (step scripted (Read_ev 4096) block_ready_then_dry))) \<noteq> 0"
    by (simp_all add: run_defs zero_extracts_def last_packet_script_def last_packet_decoded_def
          last_chunk_read_def stream_read_to_end_def at_end_of_stream_def block_ready_def
          block_ready_then_dry_def)
  from eof_after_final_block_is_drained [OF run4] e
  have f: "read_results (fresh block_ready_then_dry
       (the (step scripted (Read_ev 4096) block_ready_then_dry))) = []"
    and g: "\<not> blockin (the (step scripted (Read_ev 4096) block_ready_then_dry))"
    by blast+
  have h: "on_blockin (the (step scripted (Read_ev 4096) block_ready_then_dry))
             = [(0, 4096)]"
    by (simp add: run_defs zero_extracts_def last_packet_script_def last_packet_decoded_def
          last_chunk_read_def stream_read_to_end_def at_end_of_stream_def block_ready_def
          block_ready_then_dry_def)
  show ?thesis
    by (intro conjI) (fact run1 a b run2 c run4 e f g h)+
qed

subsection \<open>C5: a failing decode step tears the decoder down\<close>

text \<open>
  C5.  In every execution in which the Packet Source waits for the completion of a packet
  before it sends the next: the decoder has raised 'error' once and removed its 'packet'
  listener once if \<open>vorbis_synthesis\<close> or \<open>vorbis_synthesis_blockin\<close> has returned a
  non-zero status on an audio packet, and never otherwise.  After such a failure the
  decoder is detached, a packet the stream emits does not reach it, and whatever happens
  next leaves the header counter, the two flags, the engine and the attachment as they
  are: no packet is received and the engine's block-submit step is not called again.
\<close>

theorem decode_failure_tears_down:
  assumes "run_with serial bnd ls (Decoder e) = Some s"
  shows "errors_raised (trace s) = (if decode_failed (trace s) then 1 else 0) \<and>
         listener_removals (trace s) = (if decode_failed (trace s) then 1 else 0) \<and>
         (decode_failed (trace s) \<longrightarrow>
            \<not> stream_attached s \<and>
            (\<forall>p. stack s = [] \<longrightarrow> step bnd (Packet_ev p) s = Some s) \<and>
            (\<forall>ls' s'. run_with serial bnd ls' s = Some s' \<longrightarrow>
               session s' = session s \<and> submitted (trace s') = submitted (trace s) \<and>
               synthesis_calls (trace s') = synthesis_calls (trace s)))"
proof -
  from assms have inv: "serial_inv s" and err: "error_inv s"
    by (simp_all add: reach_serial)
  have frozen: "session s' = session s \<and> submitted (trace s') = submitted (trace s) \<and>
               synthesis_calls (trace s') = synthesis_calls (trace s)"
    if down: "\<not> stream_ref s" and run: "run_with serial bnd ls' s = Some s'" for ls' s'
  proof -
    have "serial_inv s' \<and> session s' = session s \<and>
          submitted (trace s') = submitted (trace s) \<and>
          synthesis_calls (trace s') = synthesis_calls (trace s)"
      using run
    proof (rule run_with_invariant)
      show "serial_inv s \<and> session s = session s \<and>
            submitted (trace s) = submitted (trace s) \<and>
            synthesis_calls (trace s) = synthesis_calls (trace s)"
        using inv by simp
    next
      fix x l x'
      assume I: "serial_inv x \<and> session x = session s \<and>
            submitted (trace x) = submitted (trace s) \<and>
            synthesis_calls (trace x) = synthesis_calls (trace s)"
        and ok: "serial x l" and st: "step bnd l x = Some x'"
      from I down have "\<not> stream_ref x"
        by (simp add: session_def)
      with I st have "session x' = session x \<and> submitted (trace x') = submitted (trace x) \<and>
         synthesis_calls (trace x') = synthesis_calls (trace x)"
        by (simp add: torn_down_step)
      with I ok st show "serial_inv x' \<and> session x' = session s \<and>
            submitted (trace x') = submitted (trace s) \<and>
            synthesis_calls (trace x') = synthesis_calls (trace s)"
        by (simp add: serial_inv_step)
    qed
    then show ?thesis
      by simp
  qed
  from inv err frozen show ?thesis
    by (auto simp: error_inv_def serial_inv_def step_def)
qed

text \<open>
  The first audio packet of the example fails in \<open>vorbis_synthesis\<close>; a further packet and
  a read change nothing.
\<close>

theorem decode_failure_tears_down_witness:
  "run_with serial scripted first_packet_fails (Decoder (setup_ok @ [Num (- 1)]))
     = Some after_decode_failure \<and>
   decode_failed (trace after_decode_failure) \<and>
   errors_raised (trace after_decode_failure) = 1 \<and>
   listener_removals (trace after_decode_failure) = 1 \<and>
   \<not> stream_attached after_decode_failure \<and> stack after_decode_failure = [] \<and>
   step scripted (Packet_ev (Packet 4 False)) after_decode_failure
     = Some after_decode_failure \<and>
   run_with serial scripted [Packet_ev (Packet 4 False), Read_ev 4096] after_decode_failure
     = Some (the (step scripted (Read_ev 4096) after_decode_failure)) \<and>
   session (the (step scripted (Read_ev 4096) after_decode_failure))
     = session after_decode_failure \<and>
   run_with serial scripted three_headers (Decoder setup_ok) = Some headers_done \<and>
   \<not> decode_failed (trace headers_done) \<and> errors_raised (trace headers_done) = 0"
proof -
  have run: "run_with serial scripted first_packet_fails (Decoder (setup_ok @ [Num (- 1)]))
     = Some after_decode_failure"
    by (simp add: run_defs synthesis_calls_def decode_failed_def errors_raised_def
          listener_removals_def session_def headers_done_def first_packet_fails_def
          after_decode_failure_def)
  have a: "decode_failed (trace after_decode_failure)" "stack after_decode_failure = []"
    by (simp_all add: run_defs synthesis_calls_def decode_failed_def errors_raised_def
          listener_removals_def session_def headers_done_def first_packet_fails_def
          after_decode_failure_def)
  have b: "run_with serial scripted [Packet_ev (Packet 4 False), Read_ev 4096]
             after_decode_failure
     = Some (the (step scripted (Read_ev 4096) after_decode_failure))"
    by (simp add: run_defs synthesis_calls_def decode_failed_def errors_raised_def
          listener_removals_def session_def headers_done_def first_packet_fails_def
          after_decode_failure_def)
  note main = decode_failure_tears_down [OF run]
  from main a have c: "errors_raised (trace after_decode_failure) = 1"
    "listener_removals (trace after_decode_failure) = 1"
    "\<not> stream_attached after_decode_failure"
    "step scripted (Packet_ev (Packet 4 False)) after_decode_failure
       = Some after_decode_failure"
    by simp_all
  from main a b have d: "session (the (step scripted (Read_ev 4096) after_decode_failure))
     = session after_decode_failure"
    by blast
  have run2: "run_with serial scripted three_headers (Decoder setup_ok) = Some headers_done"
    by (simp add: run_defs synthesis_calls_def decode_failed_def errors_raised_def
          listener_removals_def session_def headers_done_def first_packet_fails_def
          after_decode_failure_def)
  have e: "\<not> decode_failed (trace headers_done)"
    by (simp add: run_defs synthesis_calls_def decode_failed_def errors_raised_def
          listener_removals_def session_def headers_done_def first_packet_fails_def
          after_decode_failure_def)
  with decode_failure_tears_down [OF run2] have f: "errors_raised (trace headers_done) = 0"
    by simp
  show ?thesis
    by (intro conjI) (fact run a b c d run2 e f)+
qed

subsection \<open>C6: how the failures of the engine are reported\<close>

text \<open>
  C6 (as amended).  Each failure the engine reports is wrapped in an Error that carries
  its status and is reported once, by the method in which it occurs and through that
  method's own path, after which the method returns without calling the engine again:
  a rejected header packet is passed to the packet's \<open>done\<close>; a failure of
  \<open>vorbis_synthesis\<close> or of \<open>vorbis_synthesis_blockin\<close> (on a decoder that is still
  attached) removes the 'packet' listener and is emitted as 'error', and the packet's
  \<open>done\<close> is scheduled without an error; a negative result of \<open>vorbis_synthesis_pcmout\<close>
  is passed to the read's \<open>done\<close>.
\<close>

theorem engine_failures_reported_where_they_occur:
  "(vorbis_synthesis_headerin bnd (engine s) p = (r, e1) \<and> r \<noteq> 0 \<longrightarrow>
      headerin_cb bnd p s =
        s\<lparr>engine := e1,
          trace := trace s @ [Ret_headerin p r, Done_packet p (Some (Headerin_failed r))]\<rparr>) \<and>
   (\<not> headerCount s > 0 \<and> \<not> blockin s \<and> stream_ref s \<and>
    vorbis_synthesis bnd (engine s) p = (r, e1) \<and> r \<noteq> 0 \<longrightarrow>
      packetin bnd p s =
        Return (s\<lparr>engine := e1, stream_attached := False, stream_ref := False,
                  trace := trace s @ [Call_synthesis p r, Remove_listener,
                                      Emit_error (Synthesis_failed r), Next_tick p]\<rparr>)) \<and>
   (\<not> headerCount s > 0 \<and> \<not> blockin s \<and> stream_ref s \<and>
    vorbis_synthesis bnd (engine s) p = (0, e1) \<and>
    vorbis_synthesis_blockin bnd e1 = (r, e2) \<and> r \<noteq> 0 \<longrightarrow>
      packetin bnd p s =
        Return (s\<lparr>engine := e2, gotEos := (gotEos s \<or> e_o_s p),
                  stream_attached := False, stream_ref := False,
                  trace := trace s @ [Call_synthesis p 0, Call_blockin r, Remove_listener,
                                      Emit_error (Blockin_failed r), Next_tick p]\<rparr>)) \<and>
   (blockin s \<and> vorbis_synthesis_pcmout bnd (engine s) = (b, e1) \<and> is_negative b \<longrightarrow>
      read' bnd n s =
        s\<lparr>engine := e1,
          trace := trace s @ [Call_pcmout b,
                              Done_read n (Failure (Pcmout_failed (number_of b)))]\<rparr>)"
proof (intro conjI impI)
  assume "vorbis_synthesis_headerin bnd (engine s) p = (r, e1) \<and> r \<noteq> 0"
  then show "headerin_cb bnd p s =
        s\<lparr>engine := e1,
          trace := trace s @ [Ret_headerin p r, Done_packet p (Some (Headerin_failed r))]\<rparr>"
    by (simp add: headerin_cb_def log_def)
next
  assume "\<not> headerCount s > 0 \<and> \<not> blockin s \<and> stream_ref s \<and>
    vorbis_synthesis bnd (engine s) p = (r, e1) \<and> r \<noteq> 0"
  then show "packetin bnd p s =
        Return (s\<lparr>engine := e1, stream_attached := False, stream_ref := False,
                  trace := trace s @ [Call_synthesis p r, Remove_listener,
                                      Emit_error (Synthesis_failed r), Next_tick p]\<rparr>)"
    by (simp add: packetin_def log_def error'_def)
next
  assume "\<not> headerCount s > 0 \<and> \<not> blockin s \<and> stream_ref s \<and>
    vorbis_synthesis bnd (engine s) p = (0, e1) \<and>
    vorbis_synthesis_blockin bnd e1 = (r, e2) \<and> r \<noteq> 0"
  then show "packetin bnd p s =
        Return (s\<lparr>engine := e2, gotEos := (gotEos s \<or> e_o_s p),
                  stream_attached := False, stream_ref := False,
                  trace := trace s @ [Call_synthesis p 0, Call_blockin r, Remove_listener,
                                      Emit_error (Blockin_failed r), Next_tick p]\<rparr>)"
    by (cases "e_o_s p") (simp_all add: packetin_def log_def error'_def Let_def)
next
  assume "blockin s \<and> vorbis_synthesis_pcmout bnd (engine s) = (b, e1) \<and> is_negative b"
  then show "read' bnd n s =
        s\<lparr>engine := e1,
          trace := trace s @ [Call_pcmout b,
                              Done_read n (Failure (Pcmout_failed (number_of b)))]\<rparr>"
    by (auto simp: read'_def log_def Let_def is_zero_def is_negative_def)
qed

text \<open>One failure of each kind, on the scripted engine.\<close>

theorem engine_failures_reported_where_they_occur_witness:
  "vorbis_synthesis_headerin scripted (engine awaiting_first_header) (Packet 0 False)
     = (- 1, []) \<and>
   headerin_cb scripted (Packet 0 False) awaiting_first_header =
     awaiting_first_header
       \<lparr>engine := [],
        trace := trace awaiting_first_header @
          [Ret_headerin (Packet 0 False) (- 1),
           Done_packet (Packet 0 False) (Some (Headerin_failed (- 1)))]\<rparr> \<and>
   \<not> headerCount headers_done_then_failure > 0 \<and> \<not> blockin headers_done_then_failure \<and>
   stream_ref headers_done_then_failure \<and>
   vorbis_synthesis scripted (engine headers_done_then_failure) (Packet 3 False)
     = (- 1, []) \<and>
   packetin scripted (Packet 3 False) headers_done_then_failure =
     Return (headers_done_then_failure
       \<lparr>engine := [], stream_attached := False, stream_ref := False,
        trace := trace headers_done_then_failure @
          [Call_synthesis (Packet 3 False) (- 1), Remove_listener,
           Emit_error (Synthesis_failed (- 1)), Next_tick (Packet 3 False)]\<rparr>) \<and>
   \<not> headerCount headers_done_then_second_failure > 0 \<and>
   \<not> blockin headers_done_then_second_failure \<and>
   stream_ref headers_done_then_second_failure \<and>
   vorbis_synthesis scripted (engine headers_done_then_second_failure) (Packet 3 True)
     = (0, [Num (- 2)]) \<and>
   vorbis_synthesis_blockin scripted [Num (- 2)] = (- 2, []) \<and>
   packetin scripted (Packet 3 True) headers_done_then_second_failure =
     Return (headers_done_then_second_failure
       \<lparr>engine := [],
        gotEos := (gotEos headers_done_then_second_failure \<or> e_o_s (Packet 3 True)),
        stream_attached := False, stream_ref := False,
        trace := trace headers_done_then_second_failure @
          [Call_synthesis (Packet 3 True) 0, Call_blockin (- 2), Remove_listener,
           Emit_error (Blockin_failed (- 2)), Next_tick (Packet 3 True)]\<rparr>) \<and>
   blockin before_extract_error \<and>
   vorbis_synthesis_pcmout scripted (engine before_extract_error)
     = (Num (- 3), [Num 0, Num 0, Num 0]) \<and>
   is_negative (Num (- 3)) \<and>
   read' scripted 4096 before_extract_error =
     before_extract_error
       \<lparr>engine := [Num 0, Num 0, Num 0],
        trace := trace before_extract_error @
          [Call_pcmout (Num (- 3)),
           Done_read 4096 (Failure (Pcmout_failed (number_of (Num (- 3)))))]\<rparr>"
proof -
  have a: "vorbis_synthesis_headerin scripted (engine awaiting_first_header) (Packet 0 False)
     = (- 1, [])"
    by (simp add: run_defs errors_raised_def awaiting_first_header_def
          headers_done_then_failure_def headers_done_then_second_failure_def
          first_packet_fails_def after_decode_failure_def first_header_rejected_def
          before_extract_error_def extract_error_script_def block_ready_def)
  have a': "(- 1 :: int) \<noteq> 0" "(- 2 :: int) \<noteq> 0"
    by simp_all
  note a1 = engine_failures_reported_where_they_occur
    [where bnd = scripted and s = awaiting_first_header and p = "Packet 0 False"
       and r = "- 1" and ?e1.0 = "[]", THEN conjunct1, rule_format, OF conjI, OF a a'(1)]
  have b: "\<not> headerCount headers_done_then_failure > 0" "\<not> blockin headers_done_then_failure"
    "stream_ref headers_done_then_failure"
    "vorbis_synthesis scripted (engine headers_done_then_failure) (Packet 3 False)
       = (- 1, [])"
    by (simp_all add: run_defs errors_raised_def awaiting_first_header_def
          headers_done_then_failure_def headers_done_then_second_failure_def
          first_packet_fails_def after_decode_failure_def first_header_rejected_def
          before_extract_error_def extract_error_script_def block_ready_def)
  from engine_failures_reported_where_they_occur
    [where bnd = scripted and s = headers_done_then_failure and p = "Packet 3 False"
       and r = "- 1" and ?e1.0 = "[]"] b a'(1)
  have b1: "packetin scripted (Packet 3 False) headers_done_then_failure =
     Return (headers_done_then_failure
       \<lparr>engine := [], stream_attached := False, stream_ref := False,
        trace := trace headers_done_then_failure @
          [Call_synthesis (Packet 3 False) (- 1), Remove_listener,
           Emit_error (Synthesis_failed (- 1)), Next_tick (Packet 3 False)]\<rparr>)"
    by blast
  have c: "\<not> headerCount headers_done_then_second_failure > 0"
    "\<not> blockin headers_done_then_second_failure"
    "stream_ref headers_done_then_second_failure"
    "vorbis_synthesis scripted (engine headers_done_then_second_failure) (Packet 3 True)
       = (0, [Num (- 2)])"
    "vorbis_synthesis_blockin scripted [Num (- 2)] = (- 2, [])"
    by (simp_all add: run_defs errors_raised_def awaiting_first_header_def
          headers_done_then_failure_def headers_done_then_second_failure_def
          first_packet_fails_def after_decode_failure_def first_header_rejected_def
          before_extract_error_def extract_error_script_def block_ready_def)
  from engine_failures_reported_where_they_occur
    [where bnd = scripted and s = headers_done_then_second_failure and p = "Packet 3 True"
       and r = "- 2" and ?e1.0 = "[Num (- 2)]" and ?e2.0 = "[]"] c a'(2)
  have c1: "packetin scripted (Packet 3 True) headers_done_then_second_failure =
     Return (headers_done_then_second_failure
       \<lparr>engine := [],
        gotEos := (gotEos headers_done_then_second_failure \<or> e_o_s (Packet 3 True)),
        stream_attached := False, stream_ref := False,
        trace := trace headers_done_then_second_failure @
          [Call_synthesis (Packet 3 True) 0, Call_blockin (- 2), Remove_listener,
           Emit_error (Blockin_failed (- 2)), Next_tick (Packet 3 True)]\<rparr>)"
    by blast
  have d: "blockin before_extract_error"
    "vorbis_synthesis_pcmout scripted (engine before_extract_error)
       = (Num (- 3), [Num 0, Num 0, Num 0])"
    "is_negative (Num (- 3))"
    by (simp_all add: run_defs errors_raised_def awaiting_first_header_def
          headers_done_then_failure_def headers_done_then_second_failure_def
          first_packet_fails_def after_decode_failure_def first_header_rejected_def
          before_extract_error_def extract_error_script_def block_ready_def)
  from engine_failures_reported_where_they_occur
    [where bnd = scripted and s = before_extract_error and b = "Num (- 3)"
       and ?e1.0 = "[Num 0, Num 0, Num 0]" and n = 4096] d
  have d1: "read' scripted 4096 before_extract_error =
     before_extract_error
       \<lparr>engine := [Num 0, Num 0, Num 0],
        trace := trace before_extract_error @
          [Call_pcmout (Num (- 3)),
           Done_read 4096 (Failure (Pcmout_failed (number_of (Num (- 3)))))]\<rparr>"
    by blast
  show ?thesis
    by (intro conjI) (fact a a1 b b1 c c1 d d1)+
qed

text \<open>
  The claim as stated fails: there is no single channel.  A rejected header packet is
  handed to the packet's \<open>done\<close> and no 'error' is emitted, and the decoder stays attached;
  a failure of \<open>vorbis_synthesis\<close> is emitted as 'error' and the packet's \<open>done\<close> is
  scheduled without an error.
\<close>

theorem no_single_error_channel_counterexample:
  "run_with well_behaved scripted [Packet_ev (Packet 0 False), Headerin_cb]
     (Decoder [Num (- 1)]) = Some first_header_rejected \<and>
   trace first_header_rejected =
     [Rx_packet (Packet 0 False), Call_headerin (Packet 0 False),
      Ret_headerin (Packet 0 False) (- 1),
      Done_packet (Packet 0 False) (Some (Headerin_failed (- 1)))] \<and>
   errors_raised (trace first_header_rejected) = 0 \<and>
   stream_attached first_header_rejected \<and>
   run_with well_behaved scripted first_packet_fails (Decoder (setup_ok @ [Num (- 1)]))
     = Some after_decode_failure \<and>
   fresh headers_done_then_failure after_decode_failure =
     [Rx_packet (Packet 3 False), Call_synthesis (Packet 3 False) (- 1), Remove_listener,
      Emit_error (Synthesis_failed (- 1)), Next_tick (Packet 3 False)] \<and>
   errors_raised (trace after_decode_failure) = 1"
  by (simp add: run_defs errors_raised_def awaiting_first_header_def
          headers_done_then_failure_def headers_done_then_second_failure_def
          first_packet_fails_def after_decode_failure_def first_header_rejected_def
          before_extract_error_def extract_error_script_def block_ready_def)

subsection \<open>C7: a negative result of the extraction\<close>

text \<open>
  C7 (as amended).  When \<open>vorbis_synthesis_pcmout\<close> returns a negative status the read is
  failed with an Error that carries the status, and nothing else changes: the decoder
  stays attached to the stream and the block stays marked as available, so a packet that
  arrives afterwards is received and parked until a later extraction returns 0.
\<close>

theorem negative_extract_fails_the_read_only:
  assumes "stack s = []" and "blockin s"
    and "vorbis_synthesis_pcmout bnd (engine s) = (b, e1)" and "is_negative b"
  shows "step bnd (Read_ev n) s =
           Some (s\<lparr>engine := e1,
                    trace := trace s @ [Rx_read n, Call_pcmout b,
                      Done_read n (Failure (Pcmout_failed (number_of b)))]\<rparr>) \<and>
         (\<forall>s' p. step bnd (Read_ev n) s = Some s' \<and> stream_attached s \<and> \<not> headerCount s > 0
            \<longrightarrow> stream_attached s' \<and> blockin s' \<and>
                step bnd (Packet_ev p) s' = Some (once_pcmout p (log [Rx_packet p] s')))"
proof -
  from assms(4) have "\<not> is_zero b"
    by (auto simp: is_zero_def is_negative_def)
  with assms have "step bnd (Read_ev n) s =
           Some (s\<lparr>engine := e1,
                    trace := trace s @ [Rx_read n, Call_pcmout b,
                      Done_read n (Failure (Pcmout_failed (number_of b)))]\<rparr>)"
    by (simp add: step_def read'_def log_def)
  with assms(1,2) show ?thesis
    by (simp add: step_def packetin_def unwind_def log_def)
qed

text \<open>The extraction of the example returns -3.\<close>

theorem negative_extract_fails_the_read_only_witness:
  "stack before_extract_error = [] \<and> blockin before_extract_error \<and>
   vorbis_synthesis_pcmout scripted (engine before_extract_error)
     = (Num (- 3), [Num 0, Num 0, Num 0]) \<and>
   is_negative (Num (- 3)) \<and>
   step scripted (Read_ev 4096) before_extract_error =
     Some (before_extract_error
       \<lparr>engine := [Num 0, Num 0, Num 0],
        trace := trace before_extract_error @
          [Rx_read 4096, Call_pcmout (Num (- 3)),
           Done_read 4096 (Failure (Pcmout_failed (number_of (Num (- 3)))))]\<rparr>) \<and>
   stream_attached before_extract_error \<and> \<not> headerCount before_extract_error > 0 \<and>
   stream_attached (the (step scripted (Read_ev 4096) before_extract_error)) \<and>
   blockin (the (step scripted (Read_ev 4096) before_extract_error)) \<and>
   step scripted (Packet_ev (Packet 4 False))
     (the (step scripted (Read_ev 4096) before_extract_error)) =
     Some (once_pcmout (Packet 4 False)
            (log [Rx_packet (Packet 4 False)]
               (the (step scripted (Read_ev 4096) before_extract_error))))"
proof -
  have a: "stack before_extract_error = []" "blockin before_extract_error"
    "vorbis_synthesis_pcmout scripted (engine before_extract_error)
       = (Num (- 3), [Num 0, Num 0, Num 0])"
    "is_negative (Num (- 3))"
    by (simp_all add: run_defs extract_error_script_def before_extract_error_def
          packet_after_extract_error_def block_ready_def)
  have b: "stream_attached before_extract_error" "\<not> headerCount before_extract_error > 0"
    by (simp_all add: run_defs extract_error_script_def before_extract_error_def
          packet_after_extract_error_def block_ready_def)
  note main = negative_extract_fails_the_read_only [OF a, of 4096]
  from main have c: "step scripted (Read_ev 4096) before_extract_error =
     Some (before_extract_error
       \<lparr>engine := [Num 0, Num 0, Num 0],
        trace := trace before_extract_error @
          [Rx_read 4096, Call_pcmout (Num (- 3)),
           Done_read 4096 (Failure (Pcmout_failed (number_of (Num (- 3)))))]\<rparr>)"
    by blast
  then have d: "step scripted (Read_ev 4096) before_extract_error =
      Some (the (step scripted (Read_ev 4096) before_extract_error))"
    by simp
  from main d b
  have e: "stream_attached (the (step scripted (Read_ev 4096) before_extract_error))"
    "blockin (the (step scripted (Read_ev 4096) before_extract_error))"
    "step scripted (Packet_ev (Packet 4 False))
       (the (step scripted (Read_ev 4096) before_extract_error)) =
     Some (once_pcmout (Packet 4 False)
            (log [Rx_packet (Packet 4 False)]
               (the (step scripted (Read_ev 4096) before_extract_error))))"
    by blast+
  show ?thesis
    by (intro conjI) (fact a b c e)+
qed

text \<open>
  The claim as stated fails: after the read has failed the decoder is still attached.
  In the example a packet arrives after the failure, is received, and reaches
  \<open>vorbis_synthesis\<close> when the next extraction returns 0.
\<close>

theorem packet_accepted_after_extract_error_counterexample:
  "run_with well_behaved scripted packet_after_extract_error (Decoder extract_error_script)
     = Some (play extract_error_script packet_after_extract_error) \<and>
   stream_attached (play extract_error_script packet_after_extract_error) \<and>
   fresh before_extract_error (play extract_error_script packet_after_extract_error) =
     [Rx_read 4096, Call_pcmout (Num (- 3)), Done_read 4096 (Failure (Pcmout_failed (- 3))),
      Rx_packet (Packet 4 False),
      Rx_read 4096, Call_pcmout (Num 0), Emit_pcmout,
      Call_synthesis (Packet 4 False) 0, Call_blockin 0, Emit_blockin]"
  by (simp add: run_defs extract_error_script_def before_extract_error_def
          packet_after_extract_error_def block_ready_def)

subsection \<open>C8: reads after the end of the stream\<close>

text \<open>
  C8.  In every execution in which \<open>_read\<close> is called by the Readable base class: once a
  read has been given the end-of-stream result, every later read of the consumer is
  answered with that same terminal result, by the base class and without a call of
  \<open>_read\<close>; and the decoder hands no further result to a read, neither PCM data nor an
  error, whatever the Packet Source does.
\<close>

theorem reads_after_eof_return_eof:
  assumes "run_with readable bnd ls (Decoder e) = Some s"
    and "ended (trace s)"
    and "run_with readable bnd ls' s = Some s'"
  shows "consumer_read n s' = (Some Eof, None) \<and>
         read_results (trace s') = read_results (trace s) \<and>
         reads_started (trace s') = reads_started (trace s)"
proof -
  from assms(1) have inv: "read_inv s"
    by (rule reach_readable)
  have "read_inv s' \<and> read_results (trace s') = read_results (trace s) \<and>
        reads_started (trace s') = reads_started (trace s)"
    using assms(3)
  proof (rule run_with_invariant)
    show "read_inv s \<and> read_results (trace s) = read_results (trace s) \<and>
          reads_started (trace s) = reads_started (trace s)"
      using inv by simp
  next
    fix x l x'
    assume I: "read_inv x \<and> read_results (trace x) = read_results (trace s) \<and>
          reads_started (trace x) = reads_started (trace s)"
      and ok: "readable x l" and st: "step bnd l x = Some x'"
    from I assms(2) have "ended (trace x)"
      by (simp add: ended_def)
    with I ok st have "read_results (trace x') = read_results (trace x) \<and>
         reads_started (trace x') = reads_started (trace x)"
      by (simp add: ended_step)
    with I ok st show "read_inv x' \<and> read_results (trace x') = read_results (trace s) \<and>
          reads_started (trace x') = reads_started (trace s)"
      by (simp add: read_inv_step)
  qed
  with assms(2) show ?thesis
    by (simp add: consumer_read_def ended_def)
qed

text \<open>
  At the end of the example stream the reads have been given four bytes and the end of
  the stream.  Even when a further packet arrives and is decoded, a read of the consumer
  is answered with the end of the stream, and the base class does not call \<open>_read\<close>.
\<close>

theorem reads_after_eof_return_eof_witness:
  "run_with readable scripted stream_read_to_end (Decoder last_packet_script)
     = Some at_end_of_stream \<and>
   ended (trace at_end_of_stream) \<and>
   read_results (trace at_end_of_stream) = [Chunk (Buf [1, 2, 3, 4]), Eof] \<and>
   run_with readable scripted [Packet_ev (Packet 4 False), Tau] at_end_of_stream
     = Some (the (run_with readable scripted [Packet_ev (Packet 4 False), Tau]
                    at_end_of_stream)) \<and>
   blockin (the (run_with readable scripted [Packet_ev (Packet 4 False), Tau]
                   at_end_of_stream)) \<and>
   \<not> readable (the (run_with readable scripted [Packet_ev (Packet 4 False), Tau]
                      at_end_of_stream)) (Read_ev 4096) \<and>
   consumer_read 4096 (the (run_with readable scripted [Packet_ev (Packet 4 False), Tau]
                              at_end_of_stream)) = (Some Eof, None) \<and>
   read_results (trace (the (run_with readable scripted [Packet_ev (Packet 4 False), Tau]
                               at_end_of_stream)))
     = read_results (trace at_end_of_stream)"
proof -
  have run: "run_with readable scripted stream_read_to_end (Decoder last_packet_script)
     = Some at_end_of_stream"
    by (simp add: run_defs readable_def ended_def reading_def reads_started_def
          reads_answered_def last_packet_script_def stream_read_to_end_def
          at_end_of_stream_def last_packet_decoded_def)
  have a: "ended (trace at_end_of_stream)"
    "read_results (trace at_end_of_stream) = [Chunk (Buf [1, 2, 3, 4]), Eof]"
    by (simp_all add: run_defs readable_def ended_def reading_def reads_started_def
          reads_answered_def last_packet_script_def stream_read_to_end_def
          at_end_of_stream_def last_packet_decoded_def)
  have b: "run_with readable scripted [Packet_ev (Packet 4 False), Tau] at_end_of_stream
     = Some (the (run_with readable scripted [Packet_ev (Packet 4 False), Tau]
                    at_end_of_stream))"
    "blockin (the (run_with readable scripted [Packet_ev (Packet 4 False), Tau]
                   at_end_of_stream))"
    "\<not> readable (the (run_with readable scripted [Packet_ev (Packet 4 False), Tau]
                      at_end_of_stream)) (Read_ev 4096)"
    by (simp_all add: run_defs readable_def ended_def reading_def reads_started_def
          reads_answered_def last_packet_script_def stream_read_to_end_def
          at_end_of_stream_def last_packet_decoded_def)
  from reads_after_eof_return_eof [OF run a(1) b(1), of 4096]
  have c: "consumer_read 4096 (the (run_with readable scripted
             [Packet_ev (Packet 4 False), Tau] at_end_of_stream)) = (Some Eof, None)"
    "read_results (trace (the (run_with readable scripted [Packet_ev (Packet 4 False), Tau]
                               at_end_of_stream)))
     = read_results (trace at_end_of_stream)"
    by blast+
  show ?thesis
    by (intro conjI) (fact run a b c)+
qed

subsection \<open>C9: a header packet the engine rejects\<close>

text \<open>
  C9.  When the binding answers \<open>vorbis_synthesis_headerin\<close> with a non-zero status, the
  callback only calls \<open>done\<close> with the error: the header counter, the flags, the listeners
  and the attachment to the stream are as before (only the outstanding call is gone and
  the engine has moved), no notification is emitted, and the next packet of the stream
  is again passed to \<open>vorbis_synthesis_headerin\<close>.
\<close>

theorem header_failure_leaves_state:
  assumes "headerin_pending s = p # ps" and "stack s = []"
    and "vorbis_synthesis_headerin bnd (engine s) p = (r, e1)" and "r \<noteq> 0"
  shows "step bnd Headerin_cb s =
           Some (s\<lparr>headerin_pending := ps, engine := e1,
                    trace := trace s @ [Ret_headerin p r,
                                        Done_packet p (Some (Headerin_failed r))]\<rparr>)
         \<and> (\<forall>s' q. step bnd Headerin_cb s = Some s' \<and> headerCount s > 0 \<and> stream_attached s
               \<longrightarrow> headerCount s' = headerCount s \<and> stream_attached s' \<and>
                   step bnd (Packet_ev q) s' =
                     Some (s'\<lparr>headerin_pending := ps @ [q],
                              trace := trace s' @ [Rx_packet q, Call_headerin q]\<rparr>))"
proof -
  have "headerin_cb bnd p (s\<lparr>headerin_pending := ps\<rparr>) =
          s\<lparr>headerin_pending := ps, engine := e1,
            trace := trace s @ [Ret_headerin p r, Done_packet p (Some (Headerin_failed r))]\<rparr>"
    using assms(3,4) by (simp add: headerin_cb_def log_def)
  with assms(1,2) show ?thesis
    by (simp add: step_def packetin_def log_def unwind_def)
qed

theorem header_failure_leaves_state_witness:
  "headerin_pending awaiting_first_header = [Packet 0 False] \<and>
   stack awaiting_first_header = [] \<and>
   vorbis_synthesis_headerin scripted (engine awaiting_first_header) (Packet 0 False)
     = (- 1, []) \<and>
   headerCount awaiting_first_header = 3 \<and> stream_attached awaiting_first_header \<and>
   step scripted Headerin_cb awaiting_first_header =
     Some (awaiting_first_header
             \<lparr>headerin_pending := [], engine := [],
              trace := trace awaiting_first_header @
                [Ret_headerin (Packet 0 False) (- 1),
                 Done_packet (Packet 0 False) (Some (Headerin_failed (- 1)))]\<rparr>) \<and>
   headerCount (the (step scripted Headerin_cb awaiting_first_header)) = 3 \<and>
   step scripted (Packet_ev (Packet 1 False))
       (the (step scripted Headerin_cb awaiting_first_header)) =
     Some ((the (step scripted Headerin_cb awaiting_first_header))
             \<lparr>headerin_pending := [Packet 1 False],
              trace := trace (the (step scripted Headerin_cb awaiting_first_header)) @
                [Rx_packet (Packet 1 False), Call_headerin (Packet 1 False)]\<rparr>)"
proof -
  have a: "headerin_pending awaiting_first_header = Packet 0 False # []"
    by (simp add: run_defs awaiting_first_header_def)
  have b: "stack awaiting_first_header = []"
    by (simp add: run_defs awaiting_first_header_def)
  have c: "vorbis_synthesis_headerin scripted (engine awaiting_first_header) (Packet 0 False)
             = (- 1, [])"
    by (simp add: run_defs awaiting_first_header_def)
  have d: "(- 1 :: int) \<noteq> 0"
    by simp
  have e: "headerCount awaiting_first_header = 3" "stream_attached awaiting_first_header"
    by (simp_all add: run_defs awaiting_first_header_def)
  note main = header_failure_leaves_state [OF a b c d]
  from main have f: "step scripted Headerin_cb awaiting_first_header =
     Some (awaiting_first_header
             \<lparr>headerin_pending := [], engine := [],
              trace := trace awaiting_first_header @
                [Ret_headerin (Packet 0 False) (- 1),
                 Done_packet (Packet 0 False) (Some (Headerin_failed (- 1)))]\<rparr>)"
    by blast
  then have g: "step scripted Headerin_cb awaiting_first_header =
      Some (the (step scripted Headerin_cb awaiting_first_header))"
    by simp
  from e have e': "headerCount awaiting_first_header > 0"
    by simp
  from main g e' e(2)
  have h: "headerCount (the (step scripted Headerin_cb awaiting_first_header))
             = headerCount awaiting_first_header"
    and i: "step scripted (Packet_ev (Packet 1 False))
       (the (step scripted Headerin_cb awaiting_first_header)) =
     Some ((the (step scripted Headerin_cb awaiting_first_header))
             \<lparr>headerin_pending := [] @ [Packet 1 False],
              trace := trace (the (step scripted Headerin_cb awaiting_first_header)) @
                [Rx_packet (Packet 1 False), Call_headerin (Packet 1 False)]\<rparr>)"
    by blast+
  from a have a': "headerin_pending awaiting_first_header = [Packet 0 False]"
    by simp
  from h e(1) have h': "headerCount (the (step scripted Headerin_cb awaiting_first_header)) = 3"
    by simp
  from i have i': "step scripted (Packet_ev (Packet 1 False))
       (the (step scripted Headerin_cb awaiting_first_header)) =
     Some ((the (step scripted Headerin_cb awaiting_first_header))
             \<lparr>headerin_pending := [Packet 1 False],
              trace := trace (the (step scripted Headerin_cb awaiting_first_header)) @
                [Rx_packet (Packet 1 False), Call_headerin (Packet 1 False)]\<rparr>)"
    by simp
  show ?thesis
    by (intro conjI) (fact a' b c e f h' i')+
qed


subsection \<open>C10: the notifications and a failing initialisation\<close>

text \<open>
  C10.  When the third header packet is accepted and \<open>_synthesis_init\<close> then fails (in
  \<open>vorbis_synthesis_init\<close> or in \<open>vorbis_block_init\<close>), 'comments' and 'format' have both
  been emitted, in this order, before \<open>done\<close> is called with the initialisation error;
  the header counter is 0 all the same.
\<close>

theorem notifications_precede_init_error:
  assumes "headerin_pending s = p # ps" and "stack s = []" and "headerCount s = 1"
    and "vorbis_synthesis_headerin bnd (engine s) p = (0, e1)"
    and "vorbis_synthesis_init bnd e1 = (r1, e2)"
    and "vorbis_block_init bnd e2 = (r2, e3)"
    and "r1 \<noteq> 0 \<or> r2 \<noteq> 0"
  shows "\<exists>s'. step bnd Headerin_cb s = Some s' \<and> headerCount s' = 0 \<and>
           fresh s s' =
             [Ret_headerin p 0, Emit_comments, Emit_format] @
             (if r1 \<noteq> 0
              then [Call_synthesis_init r1, Done_packet p (Some (Init_failed r1))]
              else [Call_synthesis_init 0, Call_block_init r2,
                    Done_packet p (Some (Init_failed r2))])"
  using assms
  by (auto simp: step_def headerin_cb_def synthesis_init_def log_def fresh_def)

theorem notifications_precede_init_error_witness:
  "headerin_pending awaiting_third_header = [Packet 2 False] \<and>
   stack awaiting_third_header = [] \<and> headerCount awaiting_third_header = 1 \<and>
   vorbis_synthesis_headerin scripted (engine awaiting_third_header) (Packet 2 False)
     = (0, [Num 0, Num (- 131)]) \<and>
   vorbis_synthesis_init scripted [Num 0, Num (- 131)] = (0, [Num (- 131)]) \<and>
   vorbis_block_init scripted [Num (- 131)] = (- 131, []) \<and>
   headerCount (the (step scripted Headerin_cb awaiting_third_header)) = 0 \<and>
   fresh awaiting_third_header (the (step scripted Headerin_cb awaiting_third_header)) =
     [Ret_headerin (Packet 2 False) 0, Emit_comments, Emit_format,
      Call_synthesis_init 0, Call_block_init (- 131),
      Done_packet (Packet 2 False) (Some (Init_failed (- 131)))]"
proof -
  have a: "headerin_pending awaiting_third_header = Packet 2 False # []"
    by (simp add: run_defs awaiting_third_header_def)
  have b: "stack awaiting_third_header = []"
    by (simp add: run_defs awaiting_third_header_def)
  have c: "headerCount awaiting_third_header = 1"
    by (simp add: run_defs awaiting_third_header_def)
  have d: "vorbis_synthesis_headerin scripted (engine awaiting_third_header) (Packet 2 False)
             = (0, [Num 0, Num (- 131)])"
    by (simp add: run_defs awaiting_third_header_def)
  have e: "vorbis_synthesis_init scripted [Num 0, Num (- 131)] = (0, [Num (- 131)])"
    by (simp add: run_defs awaiting_third_header_def)
  have f: "vorbis_block_init scripted [Num (- 131)] = (- 131, [])"
    by (simp add: run_defs awaiting_third_header_def)
  have g: "(0 :: int) \<noteq> 0 \<or> (- 131 :: int) \<noteq> 0"
    by simp
  from notifications_precede_init_error [OF a b c d e f g] a b c d e f show ?thesis
    by auto
qed

end
